theory Spec2Isabelle
  imports Main
begin

section \<open>Python strings and values\<close>

text \<open>
  A Python string is held as the bytes of its UTF-8 encoding; joining, prefixes, suffixes
  and replacement are the same on the bytes as on the characters.
\<close>

text \<open>
  \<^verbatim>\<open>str.startswith\<close> and \<^verbatim>\<open>str.endswith\<close>: literal, case-sensitive comparison of
  the first (last) characters with the given prefix (suffix).
\<close>

definition startswith :: "string \<Rightarrow> string \<Rightarrow> bool" where
  "startswith s p = (take (length p) s = p)"

definition endswith :: "string \<Rightarrow> string \<Rightarrow> bool" where
  "endswith s p = (length p \<le> length s \<and> drop (length s - length p) s = p)"

text \<open>
  \<^verbatim>\<open>str.replace(old, new)\<close>: every non-overlapping occurrence of \<open>old\<close>, scanning from
  the left, is replaced. With an empty \<open>old\<close> Python puts \<open>new\<close> before every character
  and at the end.
\<close>

function py_replace :: "string \<Rightarrow> string \<Rightarrow> string \<Rightarrow> string" where
  "py_replace old new s =
     (if old = [] then new @ concat (map (\<lambda>c. c # new) s)
      else if s = [] then []
      else if startswith s old then new @ py_replace old new (drop (length old) s)
      else hd s # py_replace old new (tl s))"
  by pat_completeness auto
termination
  by (relation "measure (\<lambda>(old, new, s). length s)") auto

declare py_replace.simps [simp del]

text \<open>\<^verbatim>\<open>' '.join(xs)\<close>.\<close>

fun join_space :: "string list \<Rightarrow> string" where
  "join_space [] = []"
| "join_space [x] = x"
| "join_space (x # y # ys) = x @ '' '' @ join_space (y # ys)"

text \<open>
  \<^verbatim>\<open>os.path.join(a, b)\<close> for two components on POSIX: an absolute \<open>b\<close> discards \<open>a\<close>;
  otherwise a separator is inserted unless \<open>a\<close> is empty or already ends in one.
\<close>

definition path_join :: "string \<Rightarrow> string \<Rightarrow> string" where
  "path_join a b =
     (if startswith b ''/'' then b
      else if a = [] \<or> endswith a ''/'' then a @ b
      else a @ ''/'' @ b)"

text \<open>\<^verbatim>\<open>str(n)\<close> for an integer: decimal digits, with a minus sign when negative.\<close>

definition digit_char :: "nat \<Rightarrow> char" where
  "digit_char d = ''0123456789'' ! d"

fun str_nat :: "nat \<Rightarrow> string" where
  "str_nat n = (if n < 10 then [digit_char n] else str_nat (n div 10) @ [digit_char (n mod 10)])"

declare str_nat.simps [simp del]

definition str_int :: "int \<Rightarrow> string" where
  "str_int i = (if i < 0 then ''-'' @ str_nat (nat (- i)) else str_nat (nat i))"

text \<open>
  The values that can come out of a property list and flow through the handler.
  \<open>PNone\<close> is what \<^verbatim>\<open>dict.get\<close> returns for an absent key. A value of any other plist
  type (array, dict, real, date, data) is \<open>POther t r\<close>: its truth value \<open>t\<close> and its
  \<^verbatim>\<open>str()\<close> rendering \<open>r\<close>, the only two things the program observes of it.
\<close>

datatype pyval = PNone | PStr string | PInt int | PBool bool | POther bool string

fun truthy :: "pyval \<Rightarrow> bool" where
  "truthy PNone = False"
| "truthy (PStr s) = (s \<noteq> [])"
| "truthy (PInt i) = (i \<noteq> 0)"
| "truthy (PBool b) = b"
| "truthy (POther t r) = t"

text \<open>\<^verbatim>\<open>a or b\<close>: the first operand when it is true, else the second.\<close>

definition py_or :: "pyval \<Rightarrow> pyval \<Rightarrow> pyval" where
  "py_or a b = (if truthy a then a else b)"

text \<open>The rendering of a value inside an f-string, \<^verbatim>\<open>f"{v}"\<close>.\<close>

fun py_str :: "pyval \<Rightarrow> string" where
  "py_str PNone = ''None''"
| "py_str (PStr s) = s"
| "py_str (PInt i) = str_int i"
| "py_str (PBool b) = (if b then ''True'' else ''False'')"
| "py_str (POther t r) = r"

section \<open>Exceptions\<close>

text \<open>
  The exceptions that the modelled code paths raise. \<open>Exception m\<close> is
  \<^verbatim>\<open>raise Exception(m)\<close> of the source; \<open>HTTPException c\<close> is what \<^verbatim>\<open>abort(c)\<close> raises
  (werkzeug's class derives from \<^verbatim>\<open>Exception\<close>); \<open>OSError m\<close> is a failure of the
  operating system or a library with message \<open>m\<close>.
\<close>

datatype exn =
    Exception string
  | HTTPException nat
  | OSError string
  | BadZipFile
  | FileNotFoundError
  | NotADirectoryError
  | IsADirectoryError
  | InvalidFileException
  | AttributeError
  | UnicodeDecodeError

text \<open>
  \<^verbatim>\<open>str(e)\<close>. The texts of the built-in exceptions depend on paths and library versions;
  they are supplied by the parameter \<open>txt\<close>.
\<close>

fun str_exn :: "(exn \<Rightarrow> string) \<Rightarrow> exn \<Rightarrow> string" where
  "str_exn txt (Exception m) = m"
| "str_exn txt (OSError m) = m"
| "str_exn txt e = txt e"

section \<open>Metadata extractor\<close>

text \<open>
  What \<^verbatim>\<open>zipfile.ZipFile(ipa_path).extractall(tmpdir)\<close> leaves in the temporary
  directory: nothing when the archive cannot be read, otherwise a tree of entries in
  \<^verbatim>\<open>os.listdir\<close> order. A file is represented by the outcome of \<^verbatim>\<open>plistlib.load\<close> on
  its contents: \<open>None\<close> when the parser raises, the dictionary when the root of the
  property list is one, \<open>PlistOther\<close> for any other root.
\<close>

datatype plist_root = PlistDict "string \<rightharpoonup> pyval" | PlistOther

datatype node = File "plist_root option" | Dir "(string \<times> node) list"

datatype archive = Unreadable | Extracted "(string \<times> node) list"

definition read_info_plist :: "plist_root option \<Rightarrow> exn + (pyval \<times> pyval)" where
  "read_info_plist r =
     (case r of
        None \<Rightarrow> Inl InvalidFileException
      | Some PlistOther \<Rightarrow> Inl AttributeError
      | Some (PlistDict plist) \<Rightarrow>
          (let get = (\<lambda>k. case plist k of None \<Rightarrow> PNone | Some v \<Rightarrow> v);
               bundle_id = get ''CFBundleIdentifier'';
               app_name = py_or (py_or (get ''CFBundleDisplayName'') (get ''CFBundleName''))
                                (PStr ''UnknownApp'')
           in Inr (bundle_id, app_name)))"

definition open_info_plist :: "node option \<Rightarrow> exn + (pyval \<times> pyval)" where
  "open_info_plist app =
     (case app of
        None \<Rightarrow> Inl FileNotFoundError
      | Some (File c) \<Rightarrow> Inl NotADirectoryError
      | Some (Dir ents) \<Rightarrow>
          (case map_of ents ''Info.plist'' of
             None \<Rightarrow> Inl FileNotFoundError
           | Some (Dir d) \<Rightarrow> Inl IsADirectoryError
           | Some (File c) \<Rightarrow> read_info_plist c))"

definition extract_bundle_and_name :: "archive \<Rightarrow> exn + (pyval \<times> pyval)" where
  "extract_bundle_and_name ipa =
     (case ipa of
        Unreadable \<Rightarrow> Inl BadZipFile
      | Extracted entries \<Rightarrow>
          (case map_of entries ''Payload'' of
             None \<Rightarrow> Inl FileNotFoundError
           | Some (File c) \<Rightarrow> Inl NotADirectoryError
           | Some (Dir payload) \<Rightarrow>
               (let apps = filter (\<lambda>d. endswith d ''.app'') (map fst payload)
                in if apps = [] then Inl (Exception ''No .app folder found in Payload'')
                   else open_info_plist (map_of payload (hd apps)))))"

section \<open>Descriptor generator\<close>

text \<open>
  \<^verbatim>\<open>generate_manifest\<close>: an f-string; the three arguments are rendered by \<^verbatim>\<open>str()\<close>
  and pasted into the fixed text without any escaping.
\<close>

definition manifest_head :: string where
  \<open>manifest_head =
    ''<?xml version="1.0" encoding="UTF-8"?>\<newline>'' @
    ''<!DOCTYPE plist PUBLIC "-//Apple//DTD PLIST 1.0//EN" "http://www.apple.com/DTDs/PropertyList-1.0.dtd">\<newline>'' @
    ''<plist version="1.0">\<newline>'' @
    ''<dict>\<newline>'' @
    ''  <key>items</key>\<newline>'' @
    ''  <array>\<newline>'' @
    ''    <dict>\<newline>'' @
    ''      <key>assets</key>\<newline>'' @
    ''      <array>\<newline>'' @
    ''        <dict>\<newline>'' @
    ''          <key>kind</key>\<newline>'' @
    ''          <string>software-package</string>\<newline>'' @
    ''          <key>url</key>\<newline>'' @
    ''          <string>''\<close>

definition manifest_mid1 :: string where
  \<open>manifest_mid1 =
    ''</string>\<newline>'' @
    ''        </dict>\<newline>'' @
    ''      </array>\<newline>'' @
    ''      <key>metadata</key>\<newline>'' @
    ''      <dict>\<newline>'' @
    ''        <key>bundle-identifier</key>\<newline>'' @
    ''        <string>''\<close>

definition manifest_mid2 :: string where
  \<open>manifest_mid2 =
    ''</string>\<newline>'' @
    ''        <key>bundle-version</key>\<newline>'' @
    ''        <string>1.0</string>\<newline>'' @
    ''        <key>kind</key>\<newline>'' @
    ''        <string>software</string>\<newline>'' @
    ''        <key>title</key>\<newline>'' @
    ''        <string>''\<close>

definition manifest_tail :: string where
  \<open>manifest_tail =
    ''</string>\<newline>'' @
    ''      </dict>\<newline>'' @
    ''    </dict>\<newline>'' @
    ''  </array>\<newline>'' @
    ''</dict>\<newline>'' @
    ''</plist>''\<close>

definition generate_manifest :: "pyval \<Rightarrow> pyval \<Rightarrow> pyval \<Rightarrow> string" where
  "generate_manifest bundle_id app_name ipa_url =
     manifest_head @ py_str ipa_url @ manifest_mid1 @ py_str bundle_id @ manifest_mid2
       @ py_str app_name @ manifest_tail"

section \<open>Requests, responses, the environment and the file system\<close>

text \<open>
  An uploaded file (werkzeug's \<^verbatim>\<open>FileStorage\<close>) has a filename and contents; it is true
  in a boolean context exactly when its filename is non-empty. \<^verbatim>\<open>request.files\<close> and
  \<^verbatim>\<open>request.form\<close> are multi-dictionaries: lists of pairs whose \<^verbatim>\<open>get\<close> returns the
  first value of a key.
\<close>

record upload =
  filename :: string
  contents :: string

record request =
  files :: "(string \<times> upload) list"
  form :: "(string \<times> string) list"
  url_root :: string

text \<open>
  The JSON bodies of \<^verbatim>\<open>/sign\<close>: an error with optional details, or the success record.
  \<open>size_bytes\<close> is \<^verbatim>\<open>os.path.getsize\<close> of the published archive; the source divides it
  by \<open>1024 * 1024\<close> in floating point and rounds to two decimals, which is left out.
\<close>

record success =
  message :: string
  itms_services_url :: string
  manifest_url :: string
  ipa_url :: string
  app_info_name :: pyval
  app_info_bundle_id :: pyval
  size_bytes :: nat
  note_text :: string

datatype body = Error string "string option" | Success success

type_synonym response = "body \<times> nat"

datatype level = DEBUG | WARNING | ERROR

text \<open>
  The part of the file system the handlers touch: the working directories made by
  \<^verbatim>\<open>tempfile.mkdtemp\<close>, each with the files in it by name; every other regular file by
  its absolute path (the published artifacts are the ones directly under \<^verbatim>\<open>/tmp\<close>); and
  the messages given to \<^verbatim>\<open>app.logger\<close>, oldest first.
\<close>

record state =
  tmpdirs :: "string \<rightharpoonup> (string \<rightharpoonup> string)"
  artifacts :: "string \<rightharpoonup> string"
  logged :: "(level \<times> string) list"

text \<open>
  The outcome of the child process: it could not be started, or it exited with a status,
  having put out the bytes of its combined standard output and error, and having written
  (or not) the file at the output path.
\<close>

datatype proc_result = ProcError exn | ProcExit int string "string option"

text \<open>
  Everything a request depends on besides the request and the file system: the texts of
  exceptions, the directory \<^verbatim>\<open>mkdtemp\<close> makes (or its failure), the failure of saving to a
  path, the tree that unzipping given bytes yields, the result of the signing executable,
  the text that the bytes of its output decode to (\<^verbatim>\<open>text=True\<close>: the locale's preferred
  encoding, with universal newlines; \<open>None\<close> when the decoder raises), the two readings
  of \<^verbatim>\<open>int(time.time())\<close>, the failures of \<^verbatim>\<open>shutil.copy2\<close> and of writing the
  descriptor, and the failures of the two \<^verbatim>\<open>shutil.rmtree\<close> calls.
\<close>

record env =
  exn_text :: "exn \<Rightarrow> string"
  mkdtemp :: "exn + string"
  save :: "string \<Rightarrow> exn option"
  unzip :: "string \<Rightarrow> archive"
  zsign :: proc_result
  decode_output :: "string \<Rightarrow> string option"
  time_signed :: int
  time_manifest :: int
  copy2 :: "exn option"
  write_manifest :: "exn option"
  rmtree_finally :: "exn option"
  rmtree_handler :: "exn option"

definition ZSIGN_PATH :: string where
  "ZSIGN_PATH = ''./zsign''"

definition logmsg :: "level \<Rightarrow> string \<Rightarrow> state \<Rightarrow> state" where
  "logmsg l m st = st\<lparr>logged := logged st @ [(l, m)]\<rparr>"

text \<open>Writing a file into a working directory; the directory has to exist.\<close>

definition write_tmp :: "string \<Rightarrow> string \<Rightarrow> string \<Rightarrow> state \<Rightarrow> exn + state" where
  "write_tmp d n c st =
     (case tmpdirs st d of
        None \<Rightarrow> Inl FileNotFoundError
      | Some fs \<Rightarrow> Inr (st\<lparr>tmpdirs := (tmpdirs st)(d \<mapsto> fs(n \<mapsto> c))\<rparr>))"

section \<open>The signing endpoint\<close>

text \<open>
  The validation at the head of \<^verbatim>\<open>sign_ipa\<close>: the early \<open>400\<close> returns, in the order of
  the source, or the four accepted fields.
\<close>

definition validate :: "request \<Rightarrow> response + (upload \<times> upload \<times> upload \<times> string)" where
  "validate req =
     (if files req = [] then Inl (Error ''No files uploaded'' None, 400)
      else
        (case (map_of (files req) ''ipa'', map_of (files req) ''p12'',
               map_of (files req) ''provision'', map_of (form req) ''password'') of
           (Some ipa, Some p12, Some provision, Some password) \<Rightarrow>
             if \<not> (filename ipa \<noteq> [] \<and> filename p12 \<noteq> [] \<and> filename provision \<noteq> []
                    \<and> password \<noteq> [])
             then Inl (Error ''Missing one or more required fields'' None, 400)
             else if filename ipa = [] then Inl (Error ''No IPA file selected'' None, 400)
             else if filename p12 = [] then Inl (Error ''No P12 certificate selected'' None, 400)
             else if filename provision = []
               then Inl (Error ''No provisioning profile selected'' None, 400)
             else if \<not> endswith (filename ipa) ''.ipa''
               then Inl (Error ''IPA file must have .ipa extension'' None, 400)
             else if \<not> endswith (filename p12) ''.p12''
               then Inl (Error ''Certificate must have .p12 extension'' None, 400)
             else if \<not> endswith (filename provision) ''.mobileprovision''
               then Inl (Error ''Provisioning profile must have .mobileprovision extension'' None,
                         400)
             else Inr (ipa, p12, provision, password)
         | _ \<Rightarrow> Inl (Error ''Missing one or more required fields'' None, 400)))"

text \<open>
  Saving the uploads in order; the first failure stops, and what was written stays.
\<close>

fun save_uploads ::
  "(string \<Rightarrow> exn option) \<Rightarrow> string \<Rightarrow> (string \<times> string) list \<Rightarrow> state \<Rightarrow> exn option \<times> state"
where
  "save_uploads sv d [] st = (None, st)"
| "save_uploads sv d ((n, c) # xs) st =
     (case sv (path_join d n) of
        Some e \<Rightarrow> (Some e, st)
      | None \<Rightarrow>
          (case write_tmp d n c st of
             Inl e \<Rightarrow> (Some e, st)
           | Inr st' \<Rightarrow> save_uploads sv d xs st'))"

text \<open>The command line of the signing executable and the message logged for it.\<close>

definition zsign_cmd :: "string \<Rightarrow> string \<Rightarrow> string list" where
  "zsign_cmd tmpdir_path password =
     [ZSIGN_PATH,
      ''-k'', path_join tmpdir_path ''cert.p12'',
      ''-p'', password,
      ''-m'', path_join tmpdir_path ''profile.mobileprovision'',
      ''-o'', path_join tmpdir_path ''signed.ipa'',
      path_join tmpdir_path ''input.ipa'']"

definition zsign_log_message :: "string list \<Rightarrow> string" where
  "zsign_log_message cmd =
     ''Running zsign command: '' @ join_space (butlast cmd) @ '' [password hidden] '' @ last cmd"

text \<open>
  The base of the returned URLs: \<^verbatim>\<open>request.url_root\<close>, with \<^verbatim>\<open>http://\<close> replaced when
  it starts with it.
\<close>

definition base_url_of :: "string \<Rightarrow> string" where
  "base_url_of root =
     (if startswith root ''http://'' then py_replace ''http://'' ''https://'' root else root)"

text \<open>
  The part of \<^verbatim>\<open>sign_ipa\<close> after the signing executable has succeeded: publish the two
  artifacts and build the answer. An exception leaves through \<open>Inl\<close>:
  \<^verbatim>\<open>shutil.copy2\<close> raises when the signed file is not there. The debug line with the
  size in megabytes, a floating-point number, is not in the log of the model.
\<close>

definition publish ::
  "env \<Rightarrow> request \<Rightarrow> string \<Rightarrow> pyval \<Rightarrow> pyval \<Rightarrow> state \<Rightarrow> (exn + response) \<times> state"
where
  "publish ev req tmpdir_path bundle_id app_name st =
     (let signed_filename =
            ''signed_'' @ py_str bundle_id @ ''_'' @ str_int (time_signed ev) @ ''.ipa'';
          permanent_path = path_join ''/tmp'' signed_filename
      in case Option.bind (tmpdirs st tmpdir_path) (\<lambda>fs. fs ''signed.ipa'') of
           None \<Rightarrow> (Inl FileNotFoundError, st)
         | Some signed \<Rightarrow>
           (case copy2 ev of
              Some e \<Rightarrow> (Inl e, st)
            | None \<Rightarrow>
              (let st1 = logmsg DEBUG (''Signed IPA saved to: '' @ permanent_path)
                           (st\<lparr>artifacts := (artifacts st)(permanent_path \<mapsto> signed)\<rparr>);
                   manifest_filename =
                     ''manifest_'' @ py_str bundle_id @ ''_'' @ str_int (time_manifest ev)
                       @ ''.plist'';
                   permanent_manifest_path = path_join ''/tmp'' manifest_filename;
                   base_url = base_url_of (url_root req);
                   direct_ipa_url = base_url @ ''download/'' @ signed_filename;
                   local_manifest_url = base_url @ ''download/'' @ manifest_filename;
                   st2 = logmsg DEBUG (''Using local URLs for OTA - Base URL: '' @ base_url) st1;
                   manifest_content = generate_manifest bundle_id app_name (PStr direct_ipa_url)
               in case write_manifest ev of
                    Some e \<Rightarrow> (Inl e, st2)
                  | None \<Rightarrow>
                    (let st3 = st2\<lparr>artifacts :=
                                 (artifacts st2)(permanent_manifest_path \<mapsto> manifest_content)\<rparr>;
                         itms = ''itms-services://?action=download-manifest&url=''
                                  @ local_manifest_url;
                         st4 = logmsg DEBUG (''Local OTA URLs - IPA: '' @ direct_ipa_url
                                 @ '', Manifest: '' @ local_manifest_url) st3;
                         st5 = logmsg DEBUG (''ITMS services URL: '' @ itms) st4
                     in (Inr (Success \<lparr>
                           message = ''App signed successfully! Use the OTA link to install on your iOS device.'',
                           itms_services_url = itms,
                           manifest_url = local_manifest_url,
                           ipa_url = direct_ipa_url,
                           app_info_name = app_name,
                           app_info_bundle_id = bundle_id,
                           size_bytes = length signed,
                           note_text = ''OTA installation works locally. For production use, deploy this app to get valid HTTPS certificates.''\<rparr>,
                           200), st5)))))"

text \<open>
  The body of the inner \<^verbatim>\<open>try\<close> of \<^verbatim>\<open>sign_ipa\<close>, in the order of the source and cut
  into its stages: run the signing executable (then publish), before that extract the
  metadata, before that save the uploads. A \<^verbatim>\<open>return\<close> is \<open>Inr\<close>, an exception that the
  body does not catch is \<open>Inl\<close>.
\<close>

text \<open>
  \<^verbatim>\<open>subprocess.check_output(cmd, stderr=subprocess.STDOUT, text=True)\<close>: the output of
  the child is read and decoded first, and a \<^verbatim>\<open>UnicodeDecodeError\<close> of the decoder leaves
  the call whatever the exit status; only then a status other than 0 raises
  \<^verbatim>\<open>CalledProcessError\<close>, which the handler turns into the 500 answer with the decoded
  output (a \<^verbatim>\<open>str\<close>, because of \<^verbatim>\<open>text=True\<close>) as details. The handler catches
  \<^verbatim>\<open>CalledProcessError\<close> alone.
\<close>

definition sign_stage ::
  "env \<Rightarrow> request \<Rightarrow> string \<Rightarrow> string \<Rightarrow> pyval \<Rightarrow> pyval \<Rightarrow> state \<Rightarrow> (exn + response) \<times> state"
where
  "sign_stage ev req tmpdir_path password bundle_id app_name st =
     (let cmd = zsign_cmd tmpdir_path password;
          st1 = logmsg DEBUG (zsign_log_message cmd) st
      in case zsign ev of
           ProcError e \<Rightarrow> (Inl e, st1)
         | ProcExit returncode captured written \<Rightarrow>
           (let st2 = (case written of
                         None \<Rightarrow> st1
                       | Some bytes \<Rightarrow>
                           (case write_tmp tmpdir_path ''signed.ipa'' bytes st1 of
                              Inl e \<Rightarrow> st1
                            | Inr st' \<Rightarrow> st'))
            in case decode_output ev captured of
                 None \<Rightarrow> (Inl UnicodeDecodeError, st2)
               | Some output \<Rightarrow>
                   if returncode \<noteq> 0
                   then (Inr (Error ''Signing failed'' (Some output), 500),
                         logmsg ERROR (''zsign failed with exit code '' @ str_int returncode
                                         @ '': '' @ output) st2)
                   else publish ev req tmpdir_path bundle_id app_name
                          (logmsg DEBUG (''zsign output: '' @ output) st2)))"

definition extract_stage ::
  "env \<Rightarrow> request \<Rightarrow> string \<Rightarrow> string \<Rightarrow> state \<Rightarrow> (exn + response) \<times> state"
where
  "extract_stage ev req tmpdir_path password st =
     (let ipa_file = (case Option.bind (tmpdirs st tmpdir_path) (\<lambda>fs. fs ''input.ipa'') of
                        None \<Rightarrow> Unreadable
                      | Some bytes \<Rightarrow> unzip ev bytes)
      in case extract_bundle_and_name ipa_file of
           Inl e \<Rightarrow>
             (Inr (Error ''Failed to extract bundle id and app name''
                     (Some (str_exn (exn_text ev) e)), 500), st)
         | Inr (bundle_id, app_name) \<Rightarrow>
             sign_stage ev req tmpdir_path password bundle_id app_name
               (logmsg DEBUG (''Extracted app info: '' @ py_str app_name @ '' (''
                                @ py_str bundle_id @ '')'') st))"

definition staged ::
  "env \<Rightarrow> request \<Rightarrow> upload \<times> upload \<times> upload \<times> string \<Rightarrow> string \<Rightarrow> state
     \<Rightarrow> (exn + response) \<times> state"
where
  "staged ev req accepted tmpdir_path st =
     (case accepted of (ipa, p12, provision, password) \<Rightarrow>
      (case save_uploads (save ev) tmpdir_path
              [(''input.ipa'', contents ipa), (''cert.p12'', contents p12),
               (''profile.mobileprovision'', contents provision)]
              (logmsg DEBUG ''Saving uploaded files...'' st) of
         (Some save_error, st1) \<Rightarrow>
           (Inr (Error ''Failed to save uploaded files''
                   (Some (str_exn (exn_text ev) save_error)), 500),
            logmsg ERROR (''Failed to save uploaded files: '' @ str_exn (exn_text ev) save_error)
              st1)
       | (None, st1) \<Rightarrow>
           extract_stage ev req tmpdir_path password
             (logmsg DEBUG ''Files saved successfully'' st1)))"

text \<open>
  \<^verbatim>\<open>if tmpdir_path and os.path.exists(tmpdir_path): try: shutil.rmtree(tmpdir_path) ...\<close>,
  with the message logged on success and the one logged when \<^verbatim>\<open>rmtree\<close> raises. A failed
  \<^verbatim>\<open>rmtree\<close> is taken to leave the directory as it was.
\<close>

definition cleanup ::
  "(exn \<Rightarrow> string) \<Rightarrow> string option \<Rightarrow> exn option \<Rightarrow> string \<Rightarrow> string \<Rightarrow> state \<Rightarrow> state"
where
  "cleanup txt tmpdir_path rm done_msg failed_msg st =
     (case tmpdir_path of
        None \<Rightarrow> st
      | Some p \<Rightarrow>
          if p \<noteq> [] \<and> \<not> Option.is_none (tmpdirs st p)
          then (case rm of
                  None \<Rightarrow> logmsg DEBUG (done_msg @ p) (st\<lparr>tmpdirs := (tmpdirs st)(p := None)\<rparr>)
                | Some cleanup_error \<Rightarrow> logmsg WARNING (failed_msg @ str_exn txt cleanup_error) st)
          else st)"

text \<open>The outer \<^verbatim>\<open>except Exception as e\<close> of \<^verbatim>\<open>sign_ipa\<close>.\<close>

definition unexpected :: "env \<Rightarrow> string option \<Rightarrow> exn \<Rightarrow> state \<Rightarrow> response \<times> state" where
  "unexpected ev tmpdir_path e st =
     ((Error ''Unexpected error occurred'' (Some (str_exn (exn_text ev) e)), 500),
      cleanup (exn_text ev) tmpdir_path (rmtree_handler ev)
        ''Cleaned up temporary directory after error: ''
        ''Failed to cleanup temporary directory after error: ''
        (logmsg ERROR (''Unexpected error in sign_ipa: '' @ str_exn (exn_text ev) e) st))"

text \<open>
  \<^verbatim>\<open>tempfile.mkdtemp\<close> has made the directory \<open>p\<close>, and the handler logs it.
\<close>

definition made_tmpdir :: "string \<Rightarrow> state \<Rightarrow> state" where
  "made_tmpdir p st =
     logmsg DEBUG (''Created temporary directory: '' @ p)
       (st\<lparr>tmpdirs := (tmpdirs st)(p \<mapsto> Map.empty)\<rparr>)"

text \<open>
  The inner \<^verbatim>\<open>try ... finally\<close> inside the outer \<^verbatim>\<open>try ... except\<close>: the \<^verbatim>\<open>finally\<close>
  clause runs after the body on every way out of it; a \<^verbatim>\<open>return\<close> of the body is then
  the answer, an exception goes on to the outer handler.
\<close>

definition try_finally ::
  "env \<Rightarrow> request \<Rightarrow> upload \<times> upload \<times> upload \<times> string \<Rightarrow> string \<Rightarrow> state \<Rightarrow> response \<times> state"
where
  "try_finally ev req accepted tmpdir_path st =
     (case staged ev req accepted tmpdir_path st of
        (result, st1) \<Rightarrow>
          (let st2 = cleanup (exn_text ev) (Some tmpdir_path) (rmtree_finally ev)
                       ''Cleaned up temporary directory: ''
                       ''Failed to cleanup temporary directory: '' st1
           in case result of
                Inr resp \<Rightarrow> (resp, st2)
              | Inl e \<Rightarrow> unexpected ev (Some tmpdir_path) e st2))"

definition sign_ipa :: "env \<Rightarrow> request \<Rightarrow> state \<Rightarrow> response \<times> state" where
  "sign_ipa ev req st0 =
     (let st = logmsg DEBUG ''Received sign request'' st0
      in case validate req of
           Inl early \<Rightarrow> (early, st)
         | Inr accepted \<Rightarrow>
           (case mkdtemp ev of
              Inl e \<Rightarrow> unexpected ev None e st
            | Inr tmpdir_path \<Rightarrow>
                try_finally ev req accepted tmpdir_path (made_tmpdir tmpdir_path st)))"

section \<open>The download endpoint\<close>

text \<open>
  \<^verbatim>\<open>send_file\<close>: the file served, whether as an attachment, the MIME type given (if any)
  and the download name.
\<close>

record sent =
  sent_path :: string
  as_attachment :: bool
  mimetype :: "string option"
  download_name :: string

text \<open>
  The body of the \<^verbatim>\<open>try\<close> of \<^verbatim>\<open>download_file\<close>. \<^verbatim>\<open>abort(c)\<close> raises an exception, so
  it leaves the body through \<open>Inl\<close> like any other. \<^verbatim>\<open>os.path.exists\<close> is asked of the
  regular files; \<^verbatim>\<open>send_file\<close> of an existing file is taken to succeed.
\<close>

definition download_try :: "string \<Rightarrow> state \<Rightarrow> (exn + sent) \<times> state" where
  "download_try fname st =
     (let file_path = path_join ''/tmp'' fname
      in if artifacts st file_path = None
         then (Inl (HTTPException 404), logmsg ERROR (''File not found: '' @ file_path) st)
         else if endswith fname ''.plist''
         then (Inr \<lparr>sent_path = file_path, as_attachment = False, mimetype = Some ''text/xml'',
                     download_name = fname\<rparr>,
               logmsg DEBUG (''Serving manifest file: '' @ file_path) st)
         else if endswith fname ''.ipa''
         then (Inr \<lparr>sent_path = file_path, as_attachment = True, mimetype = None,
                     download_name = fname\<rparr>,
               logmsg DEBUG (''Serving IPA file: '' @ file_path) st)
         else (Inl (HTTPException 400),
               logmsg ERROR (''Invalid file type requested: '' @ fname) st))"

text \<open>
  \<^verbatim>\<open>download_file\<close>: the \<^verbatim>\<open>try\<close> with its \<^verbatim>\<open>except Exception as e\<close>, which logs and
  calls \<^verbatim>\<open>abort(500)\<close>. The answer is the file sent, or the status that the exception
  leaving the view carries.
\<close>

datatype download_response = Sent sent | Aborted nat

definition download_file :: "(exn \<Rightarrow> string) \<Rightarrow> string \<Rightarrow> state \<Rightarrow> download_response \<times> state" where
  "download_file txt fname st =
     (case download_try fname st of
        (Inr r, st1) \<Rightarrow> (Sent r, st1)
      | (Inl e, st1) \<Rightarrow> (Aborted 500, logmsg ERROR (''Download error: '' @ str_exn txt e) st1))"

section \<open>The failure conditions of the extractor\<close>

text \<open>
  The entries of \<^verbatim>\<open>Payload\<close> that matter: an entry whose name ends in \<^verbatim>\<open>.app\<close>, and
  such an entry that is a directory. The metadata file of an entry is \<^verbatim>\<open>Info.plist\<close>
  in it, when the entry is a directory, the file is there and it parses to a dictionary.
\<close>

fun is_dir :: "node \<Rightarrow> bool" where
  "is_dir (Dir ents) = True"
| "is_dir (File c) = False"

definition ends_in_app :: "string \<times> node \<Rightarrow> bool" where
  "ends_in_app e = endswith (fst e) ''.app''"

definition app_directory :: "string \<times> node \<Rightarrow> bool" where
  "app_directory e = (ends_in_app e \<and> is_dir (snd e))"

fun info_plist :: "node \<Rightarrow> (string \<rightharpoonup> pyval) option" where
  "info_plist (Dir ents) =
     (case map_of ents ''Info.plist'' of
        Some (File (Some (PlistDict plist))) \<Rightarrow> Some plist
      | _ \<Rightarrow> None)"
| "info_plist (File c) = None"



section \<open>Reading a descriptor back\<close>

text \<open>
  What a generated descriptor says is what a property-list reader makes of its text.
  The reader below follows the XML parser under Python's \<^verbatim>\<open>plistlib\<close> and the event
  handlers of \<^verbatim>\<open>plistlib\<close>, on the elements \<^verbatim>\<open>plist\<close>, \<^verbatim>\<open>dict\<close>, \<^verbatim>\<open>array\<close>,
  \<^verbatim>\<open>key\<close> and \<^verbatim>\<open>string\<close>. A text is held as the bytes of its UTF-8 encoding, as the
  descriptor is on disk. The reader refuses what it does not model: entity references
  (any \<^verbatim>\<open>&\<close>), CDATA sections, comments and other elements.
\<close>

datatype plist = PString string | PArray "plist list" | PDict "(string \<times> plist) list"

datatype event = Start string | End string | Text string

text \<open>
  The characters of a text: its bytes decoded as UTF-8, strictly (shortest forms only, no
  surrogates, nothing beyond U+10FFFF); \<open>None\<close> when the bytes are not UTF-8.
\<close>

definition cont :: "nat \<Rightarrow> bool" where
  "cont b = (0x80 \<le> b \<and> b \<le> 0xBF)"

fun code_points :: "string \<Rightarrow> nat list option" where
  "code_points [] = Some []"
| "code_points (c # cs) =
     (let b = of_char c in
      if b < 0x80 then map_option ((#) b) (code_points cs)
      else if b < 0xC0 then None
      else if b < 0xE0 then
        (case cs of
           c1 # r \<Rightarrow>
             (let p = (b - 0xC0) * 64 + (of_char c1 - 0x80)
              in if cont (of_char c1) \<and> 0x80 \<le> p
                 then map_option ((#) p) (code_points r) else None)
         | _ \<Rightarrow> None)
      else if b < 0xF0 then
        (case cs of
           c1 # c2 # r \<Rightarrow>
             (let p = (b - 0xE0) * 4096 + (of_char c1 - 0x80) * 64 + (of_char c2 - 0x80)
              in if cont (of_char c1) \<and> cont (of_char c2) \<and> 0x800 \<le> p
                    \<and> \<not> (0xD800 \<le> p \<and> p \<le> 0xDFFF)
                 then map_option ((#) p) (code_points r) else None)
         | _ \<Rightarrow> None)
      else if b < 0xF8 then
        (case cs of
           c1 # c2 # c3 # r \<Rightarrow>
             (let p = (b - 0xF0) * 262144 + (of_char c1 - 0x80) * 4096
                        + (of_char c2 - 0x80) * 64 + (of_char c3 - 0x80)
              in if cont (of_char c1) \<and> cont (of_char c2) \<and> cont (of_char c3)
                    \<and> 0x10000 \<le> p \<and> p \<le> 0x10FFFF
                 then map_option ((#) p) (code_points r) else None)
         | _ \<Rightarrow> None)
      else None)"

text \<open>
  The characters XML 1.0 allows in a document: tab, newline, carriage return, and
  U+0020 to U+D7FF, U+E000 to U+FFFD, U+10000 to U+10FFFF.
\<close>

definition xml_legal :: "nat \<Rightarrow> bool" where
  "xml_legal p =
     (p = 0x9 \<or> p = 0xA \<or> p = 0xD \<or> (0x20 \<le> p \<and> p \<le> 0xD7FF)
      \<or> (0xE000 \<le> p \<and> p \<le> 0xFFFD) \<or> (0x10000 \<le> p \<and> p \<le> 0x10FFFF))"

text \<open>The sequence \<^verbatim>\<open>]]>\<close> must not stand in character data.\<close>

fun cdata_end_free :: "string \<Rightarrow> bool" where
  "cdata_end_free [] = True"
| "cdata_end_free (c # cs) = (\<not> startswith (c # cs) '']]>'' \<and> cdata_end_free cs)"

text \<open>
  Well-formed character data between two tags (\<^verbatim>\<open><\<close> and \<^verbatim>\<open>&\<close> never reach it): legal
  characters, and no \<^verbatim>\<open>]]>\<close>.
\<close>

definition chardata_ok :: "string \<Rightarrow> bool" where
  "chardata_ok s =
     ((case code_points s of None \<Rightarrow> False | Some ps \<Rightarrow> list_all xml_legal ps)
      \<and> cdata_end_free s)"

text \<open>
  A text that character data holds and gives back as it stands: well-formed character
  data without \<^verbatim>\<open><\<close>, without \<^verbatim>\<open>&\<close>, and without carriage return, which a reader turns
  into a newline.
\<close>

definition plain_text :: "string \<Rightarrow> bool" where
  "plain_text s =
     (chardata_ok s \<and> CHR ''<'' \<notin> set s \<and> CHR ''&'' \<notin> set s \<and> CHR 0x0D \<notin> set s)"

text \<open>
  The markup between \<^verbatim>\<open><\<close> and \<^verbatim>\<open>>\<close>: a declaration or processing instruction is
  passed over, \<^verbatim>\<open>/name\<close> ends an element, anything else starts the element named by its
  first word.
\<close>

definition xml_tag :: "string \<Rightarrow> event list" where
  "xml_tag t =
     (case t of
        [] \<Rightarrow> [Start []]
      | c # cs \<Rightarrow>
          if c = CHR ''?'' \<or> c = CHR ''!'' then []
          else if c = CHR ''/'' then [End cs]
          else [Start (takeWhile (\<lambda>x. x \<noteq> CHR '' '') t)])"

text \<open>
  Cutting the text into events; \<open>acc\<close> holds, reversed, the characters of the tag or of
  the character data being read. In character data a carriage return becomes a newline
  (one newline with the newline that follows it), \<^verbatim>\<open>&\<close> is refused, and the data is
  handed on when it is well-formed.
\<close>

fun xml_scan :: "bool \<Rightarrow> string \<Rightarrow> string \<Rightarrow> event list option" where
  "xml_scan in_tag acc [] =
     (if in_tag \<or> \<not> chardata_ok (rev acc) then None else Some [Text (rev acc)])"
| "xml_scan in_tag acc (c # cs) =
     (if in_tag then
        (if c = CHR ''>'' then map_option (\<lambda>es. xml_tag (rev acc) @ es) (xml_scan False [] cs)
         else if c = CHR ''<'' then None
         else xml_scan True (c # acc) cs)
      else
        (if c = CHR ''<''
         then (if chardata_ok (rev acc)
               then map_option (\<lambda>es. Text (rev acc) # es) (xml_scan True [] cs)
               else None)
         else if c = CHR ''&'' then None
         else if c = CHR 0x0D
         then (if startswith cs [CHR ''\<newline>''] then xml_scan False acc cs
               else xml_scan False (CHR ''\<newline>'' # acc) cs)
         else xml_scan False (c # acc) cs))"

text \<open>
  The reader's state: the open elements, innermost first, each container with what it
  holds so far (a dictionary also with the key waiting for its value); the character
  data since the last start of an element; and the root value once it is complete.
\<close>

datatype frame =
    InPlist
  | InDict "(string \<times> plist) list" "string option"
  | InArray "plist list"
  | InKey
  | InString

datatype reader = Reader (open_elements: "frame list") (char_data: string) (root_value: "plist option")

text \<open>\<^verbatim>\<open>d[k] = v\<close>: a key that is already there keeps its place and takes the new value.\<close>

fun dict_set :: "string \<Rightarrow> plist \<Rightarrow> (string \<times> plist) list \<Rightarrow> (string \<times> plist) list" where
  "dict_set k v [] = [(k, v)]"
| "dict_set k v ((k', v') # d) = (if k' = k then (k, v) # d else (k', v') # dict_set k v d)"

text \<open>A completed value goes into the enclosing container, or is the root.\<close>

fun add_object :: "plist \<Rightarrow> frame list \<Rightarrow> plist option \<Rightarrow> reader option" where
  "add_object v [] r = Some (Reader [] [] (Some v))"
| "add_object v (InPlist # fs) r = Some (Reader (InPlist # fs) [] (Some v))"
| "add_object v (InDict d (Some k) # fs) r = Some (Reader (InDict (dict_set k v d) None # fs) [] r)"
| "add_object v (InDict d None # fs) r = None"
| "add_object v (InArray xs # fs) r = Some (Reader (InArray (xs @ [v]) # fs) [] r)"
| "add_object v (InKey # fs) r = None"
| "add_object v (InString # fs) r = None"

fun in_text :: "frame list \<Rightarrow> bool" where
  "in_text (InKey # fs) = True"
| "in_text (InString # fs) = True"
| "in_text fs = False"

definition begin_element :: "string \<Rightarrow> reader \<Rightarrow> reader option" where
  "begin_element n rd =
     (if in_text (open_elements rd) then None
      else if n = ''plist''
        then (if open_elements rd = [] then Some (Reader [InPlist] [] (root_value rd)) else None)
      else if n = ''dict'' then Some (Reader (InDict [] None # open_elements rd) [] (root_value rd))
      else if n = ''array'' then Some (Reader (InArray [] # open_elements rd) [] (root_value rd))
      else if n = ''key'' then Some (Reader (InKey # open_elements rd) [] (root_value rd))
      else if n = ''string'' then Some (Reader (InString # open_elements rd) [] (root_value rd))
      else None)"

definition end_element :: "string \<Rightarrow> reader \<Rightarrow> reader option" where
  "end_element n rd =
     (case open_elements rd of
        [] \<Rightarrow> None
      | InPlist # fs \<Rightarrow> if n = ''plist'' then Some (Reader fs [] (root_value rd)) else None
      | InDict d k # fs \<Rightarrow>
          if n = ''dict'' \<and> k = None then add_object (PDict d) fs (root_value rd) else None
      | InArray xs # fs \<Rightarrow> if n = ''array'' then add_object (PArray xs) fs (root_value rd) else None
      | InKey # fs \<Rightarrow>
          (case fs of
             InDict d None # fs' \<Rightarrow>
               if n = ''key'' then Some (Reader (InDict d (Some (char_data rd)) # fs') [] (root_value rd))
               else None
           | _ \<Rightarrow> None)
      | InString # fs \<Rightarrow>
          if n = ''string'' then add_object (PString (char_data rd)) fs (root_value rd) else None)"

fun handle :: "event \<Rightarrow> reader \<Rightarrow> reader option" where
  "handle (Start n) rd = begin_element n rd"
| "handle (End n) rd = end_element n rd"
| "handle (Text s) rd = Some (Reader (open_elements rd) (char_data rd @ s) (root_value rd))"

fun run_events :: "event list \<Rightarrow> reader \<Rightarrow> reader option" where
  "run_events [] rd = Some rd"
| "run_events (e # es) rd = (case handle e rd of None \<Rightarrow> None | Some rd' \<Rightarrow> run_events es rd')"

definition read_plist :: "string \<Rightarrow> plist option" where
  "read_plist doc =
     (case xml_scan False [] doc of
        None \<Rightarrow> None
      | Some es \<Rightarrow>
          (case run_events es (Reader [] [] None) of
             Some (Reader [] d (Some v)) \<Rightarrow> Some v
           | _ \<Rightarrow> None))"

text \<open>
  The document of the specification: one item, with one asset of kind
  \<^verbatim>\<open>software-package\<close> at the download URL, and the metadata \<^verbatim>\<open>bundle-identifier\<close>,
  \<^verbatim>\<open>bundle-version\<close> 1.0, \<^verbatim>\<open>kind\<close> software and \<^verbatim>\<open>title\<close>.
\<close>

definition manifest_document :: "string \<Rightarrow> string \<Rightarrow> string \<Rightarrow> plist" where
  "manifest_document bundle_id app_name download_url =
     PDict [(''items'', PArray [PDict
       [(''assets'', PArray [PDict [(''kind'', PString ''software-package''),
                                    (''url'', PString download_url)]]),
        (''metadata'', PDict [(''bundle-identifier'', PString bundle_id),
                              (''bundle-version'', PString ''1.0''),
                              (''kind'', PString ''software''),
                              (''title'', PString app_name)])]])]"

section \<open>Concrete inputs\<close>

text \<open>
  The scenario of the specification: \<^verbatim>\<open>app.ipa\<close> holding
  \<^verbatim>\<open>Payload/Demo.app/Info.plist\<close>, a certificate, a profile and a password, on a file
  system with nothing in it, where every operation of the environment succeeds.
\<close>

definition no_files :: state where
  "no_files = \<lparr>tmpdirs = Map.empty, artifacts = Map.empty, logged = []\<rparr>"

definition no_text :: "exn \<Rightarrow> string" where
  "no_text e = []"

definition demo_ipa :: upload where
  "demo_ipa = \<lparr>filename = ''app.ipa'', contents = ''PK''\<rparr>"

definition demo_p12 :: upload where
  "demo_p12 = \<lparr>filename = ''cert.p12'', contents = ''0''\<rparr>"

definition demo_provision :: upload where
  "demo_provision = \<lparr>filename = ''dev.mobileprovision'', contents = ''1''\<rparr>"

definition demo_request :: request where
  "demo_request =
     \<lparr>files = [(''ipa'', demo_ipa), (''p12'', demo_p12), (''provision'', demo_provision)],
      form = [(''password'', ''hunter2'')],
      url_root = ''http://localhost:5000/''\<rparr>"

definition demo_archive :: archive where
  "demo_archive =
     Extracted [(''Payload'', Dir [(''Demo.app'', Dir [(''Info.plist'',
       File (Some (PlistDict [''CFBundleIdentifier'' \<mapsto> PStr ''com.example.demo'',
                              ''CFBundleDisplayName'' \<mapsto> PStr ''Demo''])))])])]"

definition demo_unzip :: "string \<Rightarrow> archive" where
  "demo_unzip bytes = demo_archive"

definition always_saved :: "string \<Rightarrow> exn option" where
  "always_saved path = None"

text \<open>
  The decoder of a locale whose preferred encoding is ASCII: a byte beyond 0x7F makes it
  raise; \<^verbatim>\<open>\r\n\<close> and \<^verbatim>\<open>\r\<close> become \<^verbatim>\<open>\n\<close>.
\<close>

fun universal_newlines :: "string \<Rightarrow> string" where
  "universal_newlines [] = []"
| "universal_newlines (c # cs) =
     (if c = CHR 0x0D
      then (if startswith cs [CHR ''\<newline>''] then universal_newlines cs
            else CHR ''\<newline>'' # universal_newlines cs)
      else c # universal_newlines cs)"

definition ascii_byte :: "char \<Rightarrow> bool" where
  "ascii_byte c = (\<not> digit7 c)"

definition decode_ascii :: "string \<Rightarrow> string option" where
  "decode_ascii raw = (if list_all ascii_byte raw then Some (universal_newlines raw) else None)"

definition demo_env :: env where
  "demo_env =
     \<lparr>exn_text = no_text, mkdtemp = Inr ''/tmp/ios_signer_ab12'', save = always_saved,
      unzip = demo_unzip, zsign = ProcExit 0 ''ok'' (Some ''signed''),
      decode_output = decode_ascii, time_signed = 17, time_manifest = 18, copy2 = None, write_manifest = None,
      rmtree_finally = None, rmtree_handler = None\<rparr>"

text \<open>The same request with the certificate named \<^verbatim>\<open>cert.pfx\<close> and an upper-case \<^verbatim>\<open>.IPA\<close>.\<close>

definition pfx_request :: request where
  "pfx_request =
     demo_request\<lparr>files := [(''ipa'', \<lparr>filename = ''APP.IPA'', contents = ''PK''\<rparr>),
                             (''p12'', \<lparr>filename = ''cert.pfx'', contents = ''0''\<rparr>),
                             (''provision'', demo_provision)]\<rparr>"

text \<open>The same request with an empty password.\<close>

definition empty_password_request :: request where
  "empty_password_request = demo_request\<lparr>form := [(''password'', [])]\<rparr>"

text \<open>The signing executable exits with status 1.\<close>

definition failing_zsign_env :: env where
  "failing_zsign_env = demo_env\<lparr>zsign := ProcExit 1 ''bad certificate'' None\<rparr>"

text \<open>
  The signing executable exits with status 1 after putting out bytes that are not text,
  and Python words the decoder's exception.
\<close>

definition garbled :: string where
  "garbled = [CHR 0xFF, CHR 0xFE] @ '' bad cert''"

definition codec_text :: "exn \<Rightarrow> string" where
  "codec_text e =
     [CHR 0x27] @ ''ascii'' @ [CHR 0x27] @ '' codec can'' @ [CHR 0x27]
       @ ''t decode byte 0xff in position 0: ordinal not in range(128)''"

definition garbling_zsign_env :: env where
  "garbling_zsign_env = demo_env\<lparr>exn_text := codec_text, zsign := ProcExit 1 garbled None\<rparr>"




text \<open>\<^verbatim>\<open>shutil.rmtree\<close> fails, in the \<^verbatim>\<open>finally\<close> clause only, and in both places.\<close>

definition busy_env :: env where
  "busy_env = demo_env\<lparr>rmtree_finally := Some (OSError ''busy'')\<rparr>"

definition busier_env :: env where
  "busier_env = demo_env\<lparr>rmtree_finally := Some (OSError ''busy''),
                          rmtree_handler := Some (OSError ''busy'')\<rparr>"

text \<open>
  Two application directories, and the same two behind a regular file whose name also
  ends in \<^verbatim>\<open>.app\<close>.
\<close>

definition app_b :: "string \<times> node" where
  "app_b = (''b.app'', Dir [(''Info.plist'',
              File (Some (PlistDict [''CFBundleIdentifier'' \<mapsto> PStr ''com.example.b''])))])"

definition app_c :: "string \<times> node" where
  "app_c = (''c.app'', Dir [(''Info.plist'',
              File (Some (PlistDict [''CFBundleIdentifier'' \<mapsto> PStr ''com.example.c''])))])"

definition two_apps :: "(string \<times> node) list" where
  "two_apps = [app_b, app_c]"

definition two_apps_behind_a_file :: "(string \<times> node) list" where
  "two_apps_behind_a_file = [(''a.app'', File None), app_b, app_c]"


text \<open>A display name that closes its own element and sets another key.\<close>

definition injecting_name :: string where
  "injecting_name =
     ''Demo</string><key>bundle-identifier</key><string>com.example.other''"

text \<open>
  A display name with a character beyond ASCII (U+00E9, two bytes in UTF-8), with
  \<^verbatim>\<open>>\<close> and with brackets.
\<close>

definition accented_name :: string where
  "accented_name = ''Caf'' @ [CHR 0xC3, CHR 0xA9] @ '' -> [Bar]]''"

text \<open>The success body of the scenario.\<close>

definition demo_success :: success where
  "demo_success =
     \<lparr>message = ''App signed successfully! Use the OTA link to install on your iOS device.'',
      itms_services_url = ''itms-services://?action=download-manifest&url=https://localhost:5000/download/manifest_com.example.demo_18.plist'',
      manifest_url = ''https://localhost:5000/download/manifest_com.example.demo_18.plist'',
      ipa_url = ''https://localhost:5000/download/signed_com.example.demo_17.ipa'',
      app_info_name = PStr ''Demo'',
      app_info_bundle_id = PStr ''com.example.demo'',
      size_bytes = 6,
      note_text = ''OTA installation works locally. For production use, deploy this app to get valid HTTPS certificates.''\<rparr>"

section \<open>Properties of the validation\<close>

lemma validate_rejects:
  "validate req = Inl r \<Longrightarrow> \<exists>msg. r = (Error msg None, 400)"
  by (auto simp: validate_def split: if_splits option.splits prod.splits)

lemma validate_accepts:
  "validate req = Inr (ipa, p12, provision, password) \<Longrightarrow>
     map_of (files req) ''ipa'' = Some ipa \<and> map_of (files req) ''p12'' = Some p12
     \<and> map_of (files req) ''provision'' = Some provision
     \<and> map_of (form req) ''password'' = Some password \<and> password \<noteq> []
     \<and> endswith (filename ipa) ''.ipa'' \<and> endswith (filename p12) ''.p12''
     \<and> endswith (filename provision) ''.mobileprovision''"
  by (auto simp: validate_def split: if_splits option.splits prod.splits)

lemma sign_ipa_early:
  "validate req = Inl r \<Longrightarrow> sign_ipa ev req st = (r, logmsg DEBUG ''Received sign request'' st)"
  by (simp add: sign_ipa_def)

lemma demo_validate:
  "validate demo_request = Inr (demo_ipa, demo_p12, demo_provision, ''hunter2'')"
  by (simp add: validate_def demo_request_def demo_ipa_def demo_p12_def demo_provision_def
      endswith_def)

lemma demo_extract:
  "extract_bundle_and_name (demo_unzip bytes) = Inr (PStr ''com.example.demo'', PStr ''Demo'')"
  by (simp add: extract_bundle_and_name_def demo_unzip_def demo_archive_def open_info_plist_def
      read_info_plist_def endswith_def py_or_def)

lemma demo_env_simps:
  "mkdtemp demo_env = Inr ''/tmp/ios_signer_ab12''"
  "save demo_env = always_saved"
  "unzip demo_env = demo_unzip"
  "exn_text demo_env = no_text"
  by (simp_all add: demo_env_def)

text \<open>
  C3: a \<^verbatim>\<open>POST /sign\<close> request that lacks one of the four fields, or whose uploaded
  filenames do not end (literally, case-sensitively) in \<^verbatim>\<open>.ipa\<close>, \<^verbatim>\<open>.p12\<close> and
  \<^verbatim>\<open>.mobileprovision\<close>, is answered with status 400 and a JSON error body, and neither
  the working directories nor any other file has changed: the handler returns before it
  creates or writes anything.
\<close>

theorem invalid_request_is_400_without_effects:
  assumes "map_of (files req) ''ipa'' = None \<or> map_of (files req) ''p12'' = None
         \<or> map_of (files req) ''provision'' = None \<or> map_of (form req) ''password'' = None
         \<or> (\<exists>u. map_of (files req) ''ipa'' = Some u \<and> \<not> endswith (filename u) ''.ipa'')
         \<or> (\<exists>u. map_of (files req) ''p12'' = Some u \<and> \<not> endswith (filename u) ''.p12'')
         \<or> (\<exists>u. map_of (files req) ''provision'' = Some u
                 \<and> \<not> endswith (filename u) ''.mobileprovision'')"
  shows "(\<exists>msg. fst (sign_ipa ev req st) = (Error msg None, 400))
       \<and> tmpdirs (snd (sign_ipa ev req st)) = tmpdirs st
       \<and> artifacts (snd (sign_ipa ev req st)) = artifacts st"
proof (cases "validate req")
  case (Inl r)
  with validate_rejects [OF Inl] show ?thesis
    by (auto simp: sign_ipa_early logmsg_def)
next
  case (Inr acc)
  obtain ipa p12 provision password where "acc = (ipa, p12, provision, password)"
    by (cases acc) auto
  with Inr assms validate_accepts [of req ipa p12 provision password] show ?thesis
    by auto
qed

text \<open>
  The second scenario of the specification: the certificate is uploaded as
  \<^verbatim>\<open>cert.pfx\<close>.
\<close>

theorem invalid_request_is_400_without_effects_witness:
  "(\<exists>msg. fst (sign_ipa demo_env pfx_request no_files) = (Error msg None, 400))
   \<and> tmpdirs (snd (sign_ipa demo_env pfx_request no_files)) = tmpdirs no_files
   \<and> artifacts (snd (sign_ipa demo_env pfx_request no_files)) = artifacts no_files"
  using invalid_request_is_400_without_effects [of pfx_request demo_env no_files]
  by (simp add: pfx_request_def demo_request_def endswith_def)

text \<open>
  C9: a request whose \<^verbatim>\<open>password\<close> field is present but empty is answered with status
  400, like a request without the field.
\<close>

theorem empty_password_is_400:
  assumes "map_of (form req) ''password'' = Some []"
  shows "\<exists>msg. fst (sign_ipa ev req st) = (Error msg None, 400)"
proof (cases "validate req")
  case (Inl r)
  with validate_rejects [OF Inl] show ?thesis
    by (auto simp: sign_ipa_early)
next
  case (Inr acc)
  obtain ipa p12 provision password where "acc = (ipa, p12, provision, password)"
    by (cases acc) auto
  with Inr assms validate_accepts [of req ipa p12 provision password] show ?thesis
    by simp
qed

theorem empty_password_is_400_witness:
  "map_of (form empty_password_request) ''password'' = Some []
   \<and> (\<exists>msg. fst (sign_ipa demo_env empty_password_request no_files) = (Error msg None, 400))"
  using empty_password_is_400 [of empty_password_request demo_env no_files]
  by (simp add: empty_password_request_def)

section \<open>Properties of the download endpoint\<close>

lemma download_serves_existing:
  assumes "artifacts st (path_join ''/tmp'' fname) \<noteq> None"
  shows "endswith fname ''.plist'' \<Longrightarrow>
           fst (download_file txt fname st)
             = Sent \<lparr>sent_path = path_join ''/tmp'' fname, as_attachment = False,
                     mimetype = Some ''text/xml'', download_name = fname\<rparr>"
    and "\<not> endswith fname ''.plist'' \<Longrightarrow> endswith fname ''.ipa'' \<Longrightarrow>
           fst (download_file txt fname st)
             = Sent \<lparr>sent_path = path_join ''/tmp'' fname, as_attachment = True,
                     mimetype = None, download_name = fname\<rparr>"
  using assms by (auto simp: download_file_def download_try_def Let_def)

text \<open>
  C2: the handler asks for 404 when the file is absent and for 400 when the suffix is
  neither \<^verbatim>\<open>.plist\<close> nor \<^verbatim>\<open>.ipa\<close>, but both \<^verbatim>\<open>abort\<close> calls stand inside the
  \<^verbatim>\<open>try\<close> whose \<^verbatim>\<open>except Exception\<close> answers 500. For the absent \<^verbatim>\<open>missing.ipa\<close> and
  for the existing \<^verbatim>\<open>notes.txt\<close> the status is 500.
\<close>

theorem download_abort_becomes_500:
  "fst (download_file no_text ''missing.ipa'' no_files) = Aborted 500
   \<and> fst (download_file no_text ''notes.txt''
            (no_files\<lparr>artifacts := [''/tmp/notes.txt'' \<mapsto> ''hello'']\<rparr>)) = Aborted 500"
  by (simp add: download_file_def download_try_def no_files_def path_join_def startswith_def
      endswith_def logmsg_def)

section \<open>Properties of the stages of the signing endpoint\<close>

lemma save_uploads_artifacts:
  "artifacts (snd (save_uploads sv d xs st)) = artifacts st"
  by (induction sv d xs st rule: save_uploads.induct)
     (auto simp: write_tmp_def split: option.splits sum.splits)

lemma save_uploads_keeps_present:
  "tmpdirs st d \<noteq> None \<Longrightarrow> tmpdirs (snd (save_uploads sv d xs st)) d \<noteq> None"
  by (induction sv d xs st rule: save_uploads.induct)
     (auto simp: write_tmp_def split: option.splits sum.splits)

lemma save_uploads_keeps_dir:
  "tmpdirs (snd (save_uploads sv d xs st)) d = None \<Longrightarrow> tmpdirs st d = None"
  using save_uploads_keeps_present by blast

lemma cleanup_artifacts: "artifacts (cleanup txt p rm a b st) = artifacts st"
  by (simp add: cleanup_def logmsg_def split: option.splits)

lemma unexpected_artifacts: "artifacts (snd (unexpected ev p e st)) = artifacts st"
  by (simp add: unexpected_def cleanup_artifacts logmsg_def)

lemma made_tmpdir_simps:
  "tmpdirs (made_tmpdir d st) d = Some Map.empty"
  "artifacts (made_tmpdir d st) = artifacts st"
  by (simp_all add: made_tmpdir_def logmsg_def)

lemma try_finally_response:
  "fst (staged ev req acc d st) = Inr resp \<Longrightarrow> fst (try_finally ev req acc d st) = resp"
  by (cases "staged ev req acc d st") (simp add: try_finally_def Let_def)

lemma try_finally_artifacts:
  "artifacts (snd (try_finally ev req acc d st)) = artifacts (snd (staged ev req acc d st))"
  by (cases "staged ev req acc d st")
     (simp add: try_finally_def Let_def cleanup_artifacts unexpected_artifacts split: sum.splits)

lemma sign_ipa_started:
  "validate req = Inr acc \<Longrightarrow> mkdtemp ev = Inr d \<Longrightarrow>
     sign_ipa ev req st =
       try_finally ev req acc d (made_tmpdir d (logmsg DEBUG ''Received sign request'' st))"
  by (simp add: sign_ipa_def)

text \<open>When the three uploads are saved, the extraction stage starts on the saved archive.\<close>

lemma staged_saved:
  assumes "tmpdirs st d = Some fs"
    and "save ev (path_join d ''input.ipa'') = None"
    and "save ev (path_join d ''cert.p12'') = None"
    and "save ev (path_join d ''profile.mobileprovision'') = None"
  shows "\<exists>st'. staged ev req (ipa, p12, provision, password) d st
                 = extract_stage ev req d password st'
             \<and> Option.bind (tmpdirs st' d) (\<lambda>fs. fs ''input.ipa'') = Some (contents ipa)
             \<and> artifacts st' = artifacts st"
  using assms
  apply (simp add: staged_def logmsg_def write_tmp_def)
  apply (rule exI, rule conjI, rule refl)
  apply simp
  done


lemma extract_stage_success:
  assumes "Option.bind (tmpdirs st d) (\<lambda>fs. fs ''input.ipa'') = Some bytes"
    and "extract_bundle_and_name (unzip ev bytes) = Inr (bundle_id, app_name)"
  shows "\<exists>st'. extract_stage ev req d password st
                 = sign_stage ev req d password bundle_id app_name st'
             \<and> artifacts st' = artifacts st"
  using assms
  apply (simp add: extract_stage_def logmsg_def)
  apply (rule exI, rule conjI, rule refl)
  apply simp
  done

lemma sign_stage_nonzero:
  assumes "zsign ev = ProcExit returncode captured written" and "returncode \<noteq> 0"
  shows "fst (sign_stage ev req d password bundle_id app_name st)
           = (case decode_output ev captured of
                None \<Rightarrow> Inl UnicodeDecodeError
              | Some output \<Rightarrow> Inr (Error ''Signing failed'' (Some output), 500))
       \<and> artifacts (snd (sign_stage ev req d password bundle_id app_name st)) = artifacts st"
  using assms
  by (simp add: sign_stage_def Let_def logmsg_def write_tmp_def split: option.splits)

lemma try_finally_exception:
  "fst (staged ev req acc d st) = Inl e \<Longrightarrow>
     fst (try_finally ev req acc d st)
       = (Error ''Unexpected error occurred'' (Some (str_exn (exn_text ev) e)), 500)"
  by (cases "staged ev req acc d st") (simp add: try_finally_def Let_def unexpected_def)

text \<open>
  What a request that reaches the signing stage is answered when the signing executable
  exits with a status other than 0.
\<close>

lemma nonzero_exit_answers:
  assumes "validate req = Inr (ipa, p12, provision, password)"
    and "mkdtemp ev = Inr d"
    and "save ev (path_join d ''input.ipa'') = None"
    and "save ev (path_join d ''cert.p12'') = None"
    and "save ev (path_join d ''profile.mobileprovision'') = None"
    and "extract_bundle_and_name (unzip ev (contents ipa)) = Inr (bundle_id, app_name)"
    and "zsign ev = ProcExit returncode captured written" and "returncode \<noteq> 0"
  shows "(\<forall>output. decode_output ev captured = Some output \<longrightarrow>
            fst (sign_ipa ev req st) = (Error ''Signing failed'' (Some output), 500))
       \<and> (decode_output ev captured = None \<longrightarrow>
            fst (sign_ipa ev req st)
              = (Error ''Unexpected error occurred''
                   (Some (str_exn (exn_text ev) UnicodeDecodeError)), 500))
       \<and> artifacts (snd (sign_ipa ev req st)) = artifacts st"
proof -
  let ?st0 = "made_tmpdir d (logmsg DEBUG ''Received sign request'' st)"
  have a0: "artifacts ?st0 = artifacts st"
    by (simp add: made_tmpdir_simps logmsg_def)
  obtain st1 where 1: "staged ev req (ipa, p12, provision, password) d ?st0
                         = extract_stage ev req d password st1"
    and b1: "Option.bind (tmpdirs st1 d) (\<lambda>fs. fs ''input.ipa'') = Some (contents ipa)"
    and a1: "artifacts st1 = artifacts ?st0"
    using staged_saved [OF made_tmpdir_simps(1) assms(3-5)] by blast
  obtain st2 where 2: "extract_stage ev req d password st1
                         = sign_stage ev req d password bundle_id app_name st2"
    and a2: "artifacts st2 = artifacts st1"
    using extract_stage_success [OF b1 assms(6)] by blast
  note 3 = sign_stage_nonzero [OF assms(7,8), of req d password bundle_id app_name st2]
  have s: "sign_ipa ev req st = try_finally ev req (ipa, p12, provision, password) d ?st0"
    by (rule sign_ipa_started [OF assms(1,2)])
  have "artifacts (snd (sign_ipa ev req st)) = artifacts st"
    using 1 2 3 a0 a1 a2 by (simp add: s try_finally_artifacts)
  moreover have "fst (sign_ipa ev req st) = (Error ''Signing failed'' (Some decoded), 500)"
    if "decode_output ev captured = Some decoded" for decoded
    using 1 2 3 that by (simp add: s try_finally_response)
  moreover have "fst (sign_ipa ev req st)
              = (Error ''Unexpected error occurred''
                   (Some (str_exn (exn_text ev) UnicodeDecodeError)), 500)"
    if "decode_output ev captured = None"
    using 1 2 3 that by (simp add: s try_finally_exception)
  ultimately show ?thesis by blast
qed

section \<open>Properties of the signing stage\<close>

text \<open>
  C1: the message logged for the signing invocation joins every element of the command
  line but the last, and the password is the fifth of them: on the scenario's request,
  whose password is \<^verbatim>\<open>hunter2\<close>, the logged line shows it, next to the words
  \<^verbatim>\<open>[password hidden]\<close>.
\<close>

theorem signing_log_shows_password:
  "(DEBUG, ''Running zsign command: ./zsign -k /tmp/ios_signer_ab12/cert.p12 -p hunter2 -m /tmp/ios_signer_ab12/profile.mobileprovision -o /tmp/ios_signer_ab12/signed.ipa [password hidden] /tmp/ios_signer_ab12/input.ipa'')
     \<in> set (logged (snd (sign_ipa demo_env demo_request no_files)))"
  apply (simp add: sign_ipa_def demo_validate demo_env_def try_finally_def made_tmpdir_def)
  apply (simp add: staged_def extract_stage_def sign_stage_def logmsg_def no_files_def
      write_tmp_def path_join_def startswith_def endswith_def demo_extract always_saved_def
      demo_ipa_def demo_p12_def demo_provision_def)
  apply (simp add: zsign_cmd_def zsign_log_message_def ZSIGN_PATH_def path_join_def
      startswith_def endswith_def publish_def Let_def logmsg_def cleanup_def
      decode_ascii_def ascii_byte_def)
  done

text \<open>
  C4, as stated, fails: the signing executable exits with status 1 after putting out
  bytes that do not decode as text. The decoder raises before the exit status is looked
  at, the handler's \<^verbatim>\<open>except CalledProcessError\<close> does not apply, and the answer is the
  500 of the outer handler, \<^verbatim>\<open>Unexpected error occurred\<close>, with the decoder's message
  as details and not the captured output, whose first byte is nowhere in them.
\<close>

theorem undecodable_output_counterexample:
  "zsign garbling_zsign_env = ProcExit 1 garbled None
   \<and> decode_output garbling_zsign_env garbled = None
   \<and> fst (sign_ipa garbling_zsign_env demo_request no_files)
       = (Error ''Unexpected error occurred'' (Some (codec_text UnicodeDecodeError)), 500)
   \<and> hd garbled \<notin> set (codec_text UnicodeDecodeError)"
proof -
  have z: "zsign garbling_zsign_env = ProcExit 1 garbled None"
    by (simp add: garbling_zsign_env_def)
  have n: "decode_output garbling_zsign_env garbled = None"
    by (simp add: garbling_zsign_env_def demo_env_def decode_ascii_def garbled_def
        ascii_byte_def)
  have one: "(1::int) \<noteq> 0" by simp
  have e: "str_exn (exn_text garbling_zsign_env) UnicodeDecodeError
             = codec_text UnicodeDecodeError"
    by (simp add: garbling_zsign_env_def)
  have "fst (sign_ipa garbling_zsign_env demo_request no_files)
          = (Error ''Unexpected error occurred''
               (Some (str_exn (exn_text garbling_zsign_env) UnicodeDecodeError)), 500)"
    using nonzero_exit_answers
      [of demo_request demo_ipa demo_p12 demo_provision "''hunter2''" garbling_zsign_env
          "''/tmp/ios_signer_ab12''" "PStr ''com.example.demo''" "PStr ''Demo''" 1 garbled None
          no_files] n
    by (simp add: demo_validate demo_extract demo_env_simps garbling_zsign_env_def
        always_saved_def)
  moreover have "hd garbled \<notin> set (codec_text UnicodeDecodeError)"
    by (simp add: garbled_def codec_text_def)
  ultimately show ?thesis using z n e by simp
qed

text \<open>
  C4, amended: when the request reaches the signing stage and the signing executable
  exits with a status other than 0, the answer is 500 and no file outside the working
  directory has been written, so neither the signed archive nor the descriptor is
  published. When the captured output of the child process decodes as text, the error
  is \<^verbatim>\<open>Signing failed\<close> and the details are that output; when it does not decode, the
  error is \<^verbatim>\<open>Unexpected error occurred\<close> and the details are the decoder's message.
\<close>

theorem signing_failure_is_500:
  assumes "validate req = Inr (ipa, p12, provision, password)"
    and "mkdtemp ev = Inr d"
    and "save ev (path_join d ''input.ipa'') = None"
    and "save ev (path_join d ''cert.p12'') = None"
    and "save ev (path_join d ''profile.mobileprovision'') = None"
    and "extract_bundle_and_name (unzip ev (contents ipa)) = Inr (bundle_id, app_name)"
    and "zsign ev = ProcExit returncode captured written" and "returncode \<noteq> 0"
  shows "(\<forall>output. decode_output ev captured = Some output \<longrightarrow>
            fst (sign_ipa ev req st) = (Error ''Signing failed'' (Some output), 500))
       \<and> (decode_output ev captured = None \<longrightarrow>
            fst (sign_ipa ev req st)
              = (Error ''Unexpected error occurred''
                   (Some (str_exn (exn_text ev) UnicodeDecodeError)), 500))
       \<and> artifacts (snd (sign_ipa ev req st)) = artifacts st"
  using assms by (rule nonzero_exit_answers)

theorem signing_failure_is_500_witness:
  "decode_output failing_zsign_env ''bad certificate'' = Some ''bad certificate''
   \<and> fst (sign_ipa failing_zsign_env demo_request no_files)
     = (Error ''Signing failed'' (Some ''bad certificate''), 500)
   \<and> artifacts (snd (sign_ipa failing_zsign_env demo_request no_files)) = artifacts no_files"
proof -
  have d: "decode_output failing_zsign_env ''bad certificate'' = Some ''bad certificate''"
    by (simp add: failing_zsign_env_def demo_env_def decode_ascii_def ascii_byte_def)
  have v: "validate demo_request = Inr (demo_ipa, demo_p12, demo_provision, ''hunter2'')"
    by (rule demo_validate)
  have m: "mkdtemp failing_zsign_env = Inr ''/tmp/ios_signer_ab12''"
    by (simp add: failing_zsign_env_def demo_env_def)
  have s: "save failing_zsign_env (path_join ''/tmp/ios_signer_ab12'' ''input.ipa'') = None"
    "save failing_zsign_env (path_join ''/tmp/ios_signer_ab12'' ''cert.p12'') = None"
    "save failing_zsign_env (path_join ''/tmp/ios_signer_ab12'' ''profile.mobileprovision'')
       = None"
    by (simp_all add: failing_zsign_env_def demo_env_def always_saved_def)
  have x: "extract_bundle_and_name (unzip failing_zsign_env (contents demo_ipa))
             = Inr (PStr ''com.example.demo'', PStr ''Demo'')"
    by (simp add: failing_zsign_env_def demo_env_def demo_extract)
  have z: "zsign failing_zsign_env = ProcExit 1 ''bad certificate'' None"
    by (simp add: failing_zsign_env_def)
  have one: "(1::int) \<noteq> 0" by simp
  from signing_failure_is_500 [OF v m s x z one, of no_files] d show ?thesis
    by blast
qed

section \<open>Properties of the metadata extractor\<close>

lemma filter_names:
  "filter (\<lambda>d. endswith d ''.app'') (map fst payload) = map fst (filter ends_in_app payload)"
  by (induction payload) (auto simp: ends_in_app_def)

lemma find_filter: "find P xs = (case filter P xs of [] \<Rightarrow> None | x # _ \<Rightarrow> Some x)"
  by (induction xs) auto

lemma find_holds: "find Q xs = Some e \<Longrightarrow> Q e"
  by (induction xs) (auto split: if_splits)

lemma map_of_first:
  "find (\<lambda>e. P (fst e)) xs = Some e \<Longrightarrow> map_of xs (fst e) = Some (snd e)"
  by (induction xs) (auto split: if_splits dest: find_holds)

text \<open>The extractor goes to the first entry of \<^verbatim>\<open>Payload\<close> whose name ends in \<^verbatim>\<open>.app\<close>.\<close>

lemma extract_payload:
  assumes "map_of entries ''Payload'' = Some (Dir payload)"
  shows "extract_bundle_and_name (Extracted entries) =
           (case find ends_in_app payload of
              None \<Rightarrow> Inl (Exception ''No .app folder found in Payload'')
            | Some e \<Rightarrow> open_info_plist (Some (snd e)))"
proof (cases "find ends_in_app payload")
  case None
  then have "filter ends_in_app payload = []"
    by (simp add: find_filter split: list.splits)
  with assms show ?thesis
    by (simp add: extract_bundle_and_name_def filter_names None)
next
  case (Some e)
  then obtain rest where f: "filter ends_in_app payload = e # rest"
    by (auto simp: find_filter split: list.splits)
  from Some have "map_of payload (fst e) = Some (snd e)"
    using map_of_first [of "\<lambda>n. endswith n ''.app''" payload e]
    by (simp add: ends_in_app_def [abs_def])
  with assms f show ?thesis
    by (simp add: extract_bundle_and_name_def filter_names Some)
qed

lemma open_info_plist_fails:
  "(\<exists>e. open_info_plist (Some x) = Inl e) \<longleftrightarrow> Option.is_none (info_plist x)"
  by (cases x)
     (auto simp: open_info_plist_def read_info_plist_def Let_def Option.is_none_def
       split: option.splits node.splits plist_root.splits)





text \<open>
  C10, as stated, fails: \<^verbatim>\<open>Payload\<close> holds two directories ending in \<^verbatim>\<open>.app\<close>, the first
  of them with a well-formed \<^verbatim>\<open>Info.plist\<close>, and before them a regular file whose name
  ends in \<^verbatim>\<open>.app\<close>. Reading the first such directory would give its identifier; the
  extractor goes to the file and fails.
\<close>

theorem first_app_directory_counterexample:
  "length (filter app_directory two_apps_behind_a_file) = 2
   \<and> find app_directory two_apps_behind_a_file = Some app_b
   \<and> open_info_plist (Some (snd app_b)) = Inr (PStr ''com.example.b'', PStr ''UnknownApp'')
   \<and> extract_bundle_and_name (Extracted [(''Payload'', Dir two_apps_behind_a_file)])
       = Inl NotADirectoryError"
  by (simp add: two_apps_behind_a_file_def app_b_def app_c_def app_directory_def
      ends_in_app_def endswith_def extract_bundle_and_name_def open_info_plist_def
      read_info_plist_def py_or_def)

text \<open>
  C10, amended: when \<^verbatim>\<open>Payload\<close> holds entries whose names end in \<^verbatim>\<open>.app\<close>, however
  many, the extractor reads the metadata of the first of them in listing order, be it a
  directory or not, and the others play no part: the result is the one for a
  \<^verbatim>\<open>Payload\<close> with that entry alone, and it is a success whenever that entry has a
  well-formed \<^verbatim>\<open>Info.plist\<close>.
\<close>

theorem extractor_reads_first_app_entry:
  assumes "map_of entries ''Payload'' = Some (Dir payload)"
    and "find ends_in_app payload = Some e"
  shows "extract_bundle_and_name (Extracted entries) = open_info_plist (Some (snd e))
       \<and> extract_bundle_and_name (Extracted entries)
           = extract_bundle_and_name (Extracted [(''Payload'', Dir [e])])
       \<and> (\<not> Option.is_none (info_plist (snd e))
            \<longrightarrow> (\<exists>r. extract_bundle_and_name (Extracted entries) = Inr r))"
proof -
  from assms(2) have "ends_in_app e" by (rule find_holds)
  then have single: "extract_bundle_and_name (Extracted [(''Payload'', Dir [e])])
                 = open_info_plist (Some (snd e))"
    by (simp add: extract_payload [of "[(''Payload'', Dir [e])]" "[e]"])
  have first: "extract_bundle_and_name (Extracted entries) = open_info_plist (Some (snd e))"
    using assms by (simp add: extract_payload)
  have "\<not> Option.is_none (info_plist (snd e)) \<Longrightarrow> \<exists>r. open_info_plist (Some (snd e)) = Inr r"
    using open_info_plist_fails [of "snd e"]
    by (cases "open_info_plist (Some (snd e))") auto
  with single first show ?thesis by simp
qed

theorem extractor_reads_first_app_entry_witness:
  "find ends_in_app two_apps = Some app_b
   \<and> extract_bundle_and_name (Extracted [(''Payload'', Dir two_apps)])
       = Inr (PStr ''com.example.b'', PStr ''UnknownApp'')
   \<and> extract_bundle_and_name (Extracted [(''Payload'', Dir two_apps)])
       = extract_bundle_and_name (Extracted [(''Payload'', Dir [app_b])])"
proof -
  have p: "map_of [(''Payload'', Dir two_apps)] ''Payload'' = Some (Dir two_apps)"
    by simp
  have f: "find ends_in_app two_apps = Some app_b"
    by (simp add: two_apps_def app_b_def ends_in_app_def endswith_def)
  have o: "open_info_plist (Some (snd app_b)) = Inr (PStr ''com.example.b'', PStr ''UnknownApp'')"
    by (simp add: app_b_def open_info_plist_def read_info_plist_def py_or_def)
  note first = extractor_reads_first_app_entry [OF p f]
  from first o
  have 1: "extract_bundle_and_name (Extracted [(''Payload'', Dir two_apps)])
             = Inr (PStr ''com.example.b'', PStr ''UnknownApp'')"
    by (simp only:)
  from first
  have 2: "extract_bundle_and_name (Extracted [(''Payload'', Dir two_apps)])
             = extract_bundle_and_name (Extracted [(''Payload'', Dir [app_b])])"
    by blast
  from f 1 2 show ?thesis by blast
qed

section \<open>Properties of the cleanup\<close>

lemma cleanup_removes:
  "p \<noteq> [] \<Longrightarrow> tmpdirs (cleanup txt (Some p) None a b st) p = None"
  by (simp add: cleanup_def logmsg_def Option.is_none_def)

lemma cleanup_keeps_absent:
  "tmpdirs st p = None \<Longrightarrow> cleanup txt (Some p) rm a b st = st"
  by (simp add: cleanup_def Option.is_none_def)

lemma cleanup_warns:
  "p \<noteq> [] \<Longrightarrow> tmpdirs st p \<noteq> None \<Longrightarrow>
     cleanup txt (Some p) (Some e) a b st = logmsg WARNING (b @ str_exn txt e) st"
  by (auto simp: cleanup_def Option.is_none_def)

lemma unexpected_keeps_absent:
  "tmpdirs st p = None \<Longrightarrow> tmpdirs (snd (unexpected ev (Some p) e st)) p = None"
  by (simp add: unexpected_def cleanup_keeps_absent logmsg_def)

lemma logged_cleanup: "set (logged st) \<subseteq> set (logged (cleanup txt p rm a b st))"
  by (auto simp: cleanup_def logmsg_def split: option.splits)

lemma logged_unexpected: "set (logged st) \<subseteq> set (logged (snd (unexpected ev p e st)))"
  using logged_cleanup by (fastforce simp: unexpected_def logmsg_def)

text \<open>Nothing before the cleanup removes the working directory.\<close>

lemma publish_tmpdirs: "tmpdirs (snd (publish ev req d b n st)) = tmpdirs st"
  by (simp add: publish_def Let_def logmsg_def split: option.splits)

lemma sign_stage_keeps_dir:
  "tmpdirs (snd (sign_stage ev req d pw b n st)) d = None \<Longrightarrow> tmpdirs st d = None"
  by (auto simp: sign_stage_def Let_def logmsg_def publish_tmpdirs write_tmp_def
      split: proc_result.splits option.splits if_splits)

lemma extract_stage_keeps_dir:
  "tmpdirs (snd (extract_stage ev req d pw st)) d = None \<Longrightarrow> tmpdirs st d = None"
  by (auto simp: extract_stage_def Let_def logmsg_def dest!: sign_stage_keeps_dir
      split: sum.splits prod.splits)

lemma staged_keeps_dir:
  "tmpdirs (snd (staged ev req acc d st)) d = None \<Longrightarrow> tmpdirs st d = None"
proof -
  assume a: "tmpdirs (snd (staged ev req acc d st)) d = None"
  obtain ipa p12 provision password where acc: "acc = (ipa, p12, provision, password)"
    by (cases acc) auto
  let ?sv = "save_uploads (save ev) d
              [(''input.ipa'', contents ipa), (''cert.p12'', contents p12),
               (''profile.mobileprovision'', contents provision)]
              (logmsg DEBUG ''Saving uploaded files...'' st)"
  obtain r st1 where sv: "?sv = (r, st1)" by (cases ?sv) auto
  have "tmpdirs st1 d = None"
  proof (cases r)
    case None
    with a have "tmpdirs (snd (extract_stage ev req d password
                   (logmsg DEBUG ''Files saved successfully'' st1))) d = None"
      unfolding acc staged_def by (simp only: sv prod.case option.case)
    from extract_stage_keeps_dir [OF this] show ?thesis by (simp add: logmsg_def)
  next
    case (Some e)
    with a show ?thesis
      unfolding acc staged_def by (simp only: sv prod.case option.case) (simp add: logmsg_def)
  qed
  with sv have "tmpdirs (snd ?sv) d = None" by simp
  from save_uploads_keeps_dir [OF this] show ?thesis by (simp add: logmsg_def)
qed

text \<open>The answer does not depend on what \<^verbatim>\<open>shutil.rmtree\<close> does.\<close>

lemma publish_rmtree:
  "publish (ev\<lparr>rmtree_finally := r1, rmtree_handler := r2\<rparr>) req d b n st = publish ev req d b n st"
  by (simp add: publish_def Let_def split: option.splits)

lemma sign_stage_rmtree:
  "sign_stage (ev\<lparr>rmtree_finally := r1, rmtree_handler := r2\<rparr>) req d pw b n st
     = sign_stage ev req d pw b n st"
  by (simp add: sign_stage_def publish_rmtree Let_def split: proc_result.splits option.splits)

lemma extract_stage_rmtree:
  "extract_stage (ev\<lparr>rmtree_finally := r1, rmtree_handler := r2\<rparr>) req d pw st
     = extract_stage ev req d pw st"
  by (simp add: extract_stage_def sign_stage_rmtree Let_def
      split: sum.splits prod.splits option.splits)

lemma staged_rmtree:
  "staged (ev\<lparr>rmtree_finally := r1, rmtree_handler := r2\<rparr>) req acc d st = staged ev req acc d st"
  by (simp add: staged_def extract_stage_rmtree split: prod.splits option.splits)

lemma try_finally_rmtree:
  "fst (try_finally (ev\<lparr>rmtree_finally := r1, rmtree_handler := r2\<rparr>) req acc d st)
     = fst (try_finally ev req acc d st)"
  by (cases "staged ev req acc d st")
     (simp add: try_finally_def staged_rmtree Let_def unexpected_def split: sum.splits)

lemma sign_ipa_rmtree:
  "fst (sign_ipa (ev\<lparr>rmtree_finally := r1, rmtree_handler := r2\<rparr>) req st) = fst (sign_ipa ev req st)"
  by (simp add: sign_ipa_def Let_def try_finally_rmtree unexpected_def split: sum.splits)

lemma try_finally_removes:
  assumes "rmtree_finally ev = None" and "d \<noteq> []"
  shows "tmpdirs (snd (try_finally ev req acc d st)) d = None"
proof (cases "staged ev req acc d st")
  case (Pair result st1)
  with assms show ?thesis
    by (cases result)
       (simp_all add: try_finally_def Let_def cleanup_removes unexpected_keeps_absent)
qed

lemma try_finally_warns:
  assumes "rmtree_finally ev = Some e" and "d \<noteq> []" and "tmpdirs st d \<noteq> None"
  shows "(WARNING, ''Failed to cleanup temporary directory: '' @ str_exn (exn_text ev) e)
           \<in> set (logged (snd (try_finally ev req acc d st)))"
proof (cases "staged ev req acc d st")
  case (Pair result st1)
  have "tmpdirs st1 d \<noteq> None"
    using staged_keeps_dir [of ev req acc d st] assms(3) Pair by auto
  then have c: "cleanup (exn_text ev) (Some d) (rmtree_finally ev)
                 ''Cleaned up temporary directory: ''
                 ''Failed to cleanup temporary directory: '' st1
              = logmsg WARNING (''Failed to cleanup temporary directory: ''
                                  @ str_exn (exn_text ev) e) st1"
    using assms(1,2) by (simp add: cleanup_warns)
  show ?thesis
  proof (cases result)
    case (Inr resp)
    with Pair c show ?thesis
      by (simp add: try_finally_def Let_def logmsg_def)
  next
    case (Inl x)
    have "(WARNING, ''Failed to cleanup temporary directory: '' @ str_exn (exn_text ev) e)
            \<in> set (logged (logmsg WARNING (''Failed to cleanup temporary directory: ''
                                  @ str_exn (exn_text ev) e) st1))"
      by (simp add: logmsg_def)
    with logged_unexpected Inl Pair c show ?thesis
      by (fastforce simp: try_finally_def Let_def)
  qed
qed

text \<open>
  C6: once the working directory of a request has been created, it is removed on every
  way out of the handler (an early answer of a stage, the success, an exception) unless
  \<^verbatim>\<open>shutil.rmtree\<close> itself fails; when it fails, the warning
  \<^verbatim>\<open>Failed to cleanup temporary directory\<close> is logged; and the answer is the same whatever
  the two \<^verbatim>\<open>rmtree\<close> calls do.
\<close>

theorem working_directory_is_cleaned_up:
  assumes "validate req = Inr acc" and "mkdtemp ev = Inr d" and "d \<noteq> []"
  shows "(rmtree_finally ev = None \<longrightarrow> tmpdirs (snd (sign_ipa ev req st)) d = None)
       \<and> (\<forall>e. rmtree_finally ev = Some e \<longrightarrow>
            (WARNING, ''Failed to cleanup temporary directory: '' @ str_exn (exn_text ev) e)
              \<in> set (logged (snd (sign_ipa ev req st))))
       \<and> (\<forall>r1 r2. fst (sign_ipa (ev\<lparr>rmtree_finally := r1, rmtree_handler := r2\<rparr>) req st)
                    = fst (sign_ipa ev req st))"
proof (intro conjI allI impI)
  assume "rmtree_finally ev = None"
  then show "tmpdirs (snd (sign_ipa ev req st)) d = None"
    using assms(3) by (simp add: sign_ipa_started [OF assms(1,2)] try_finally_removes)
next
  fix e assume e: "rmtree_finally ev = Some e"
  have t: "tmpdirs (made_tmpdir d (logmsg DEBUG ''Received sign request'' st)) d \<noteq> None"
    by (simp add: made_tmpdir_simps)
  show "(WARNING, ''Failed to cleanup temporary directory: '' @ str_exn (exn_text ev) e)
          \<in> set (logged (snd (sign_ipa ev req st)))"
    unfolding sign_ipa_started [OF assms(1,2)] by (rule try_finally_warns [OF e assms(3) t])
next
  fix r1 r2
  show "fst (sign_ipa (ev\<lparr>rmtree_finally := r1, rmtree_handler := r2\<rparr>) req st)
          = fst (sign_ipa ev req st)"
    by (rule sign_ipa_rmtree)
qed

theorem working_directory_is_cleaned_up_witness:
  "tmpdirs (snd (sign_ipa demo_env demo_request no_files)) ''/tmp/ios_signer_ab12'' = None
   \<and> (WARNING, ''Failed to cleanup temporary directory: busy'')
        \<in> set (logged (snd (sign_ipa busy_env demo_request no_files)))
   \<and> fst (sign_ipa busier_env demo_request no_files)
       = fst (sign_ipa demo_env demo_request no_files)"
proof -
  have m: "mkdtemp demo_env = Inr ''/tmp/ios_signer_ab12''"
    and m': "mkdtemp busy_env = Inr ''/tmp/ios_signer_ab12''"
    by (simp_all add: demo_env_def busy_env_def)
  have n: "''/tmp/ios_signer_ab12'' \<noteq> []" by simp
  have ok: "rmtree_finally demo_env = None"
    by (simp add: demo_env_def)
  have busy: "rmtree_finally busy_env = Some (OSError ''busy'')"
    by (simp add: busy_env_def)
  note calm = working_directory_is_cleaned_up [OF demo_validate m n, of no_files]
  note stuck = working_directory_is_cleaned_up [OF demo_validate m' n, of no_files]
  from calm ok
  have 1: "tmpdirs (snd (sign_ipa demo_env demo_request no_files)) ''/tmp/ios_signer_ab12'' = None"
    by blast
  from stuck busy
  have "(WARNING, ''Failed to cleanup temporary directory: ''
                    @ str_exn (exn_text busy_env) (OSError ''busy''))
          \<in> set (logged (snd (sign_ipa busy_env demo_request no_files)))"
    by blast
  then have 2: "(WARNING, ''Failed to cleanup temporary directory: busy'')
          \<in> set (logged (snd (sign_ipa busy_env demo_request no_files)))"
    by simp
  from calm
  have "fst (sign_ipa (demo_env\<lparr>rmtree_finally := Some (OSError ''busy''),
                                 rmtree_handler := Some (OSError ''busy'')\<rparr>)
               demo_request no_files)
          = fst (sign_ipa demo_env demo_request no_files)"
    by blast
  then have 3: "fst (sign_ipa busier_env demo_request no_files)
                  = fst (sign_ipa demo_env demo_request no_files)"
    by (simp only: busier_env_def)
  from 1 2 3 show ?thesis by blast
qed

section \<open>Properties of the returned URLs\<close>

lemma py_replace_at_prefix:
  assumes "old \<noteq> []" and "startswith s old"
  shows "py_replace old new s = new @ py_replace old new (drop (length old) s)"
proof -
  from assms have "s \<noteq> []" by (auto simp: startswith_def)
  with assms show ?thesis by (subst py_replace.simps) simp
qed

lemma base_url_of_http:
  "startswith u ''http://'' \<Longrightarrow>
     base_url_of u = ''https://'' @ py_replace ''http://'' ''https://'' (drop 7 u)"
  using py_replace_at_prefix [of "''http://''" u "''https://''"]
  by (simp add: base_url_of_def eval_nat_numeral)

lemma base_url_of_other: "\<not> startswith u ''http://'' \<Longrightarrow> base_url_of u = u"
  by (simp add: base_url_of_def)

lemma base_url_of_not_http: "\<not> startswith (base_url_of u) ''http://''"
proof (cases "startswith u ''http://''")
  case True
  then show ?thesis by (simp add: base_url_of_http) (simp add: startswith_def)
next
  case False
  then show ?thesis by (simp add: base_url_of_other)
qed

lemma publish_success:
  assumes "fst (publish ev req d b n st) = Inr (Success s, code)"
  shows "ipa_url s = base_url_of (url_root req) @ ''download/'' @ ''signed_''
                       @ py_str (app_info_bundle_id s) @ ''_'' @ str_int (time_signed ev) @ ''.ipa''
       \<and> manifest_url s = base_url_of (url_root req) @ ''download/'' @ ''manifest_''
                       @ py_str (app_info_bundle_id s) @ ''_'' @ str_int (time_manifest ev)
                       @ ''.plist''
       \<and> itms_services_url s = ''itms-services://?action=download-manifest&url=''
                       @ manifest_url s"
  using assms
  by (auto simp: publish_def Let_def split: option.splits)

lemma sign_stage_success:
  "fst (sign_stage ev req d pw b n st) = Inr (Success s, code) \<Longrightarrow>
     \<exists>st'. fst (publish ev req d b n st') = Inr (Success s, code)"
  by (auto simp: sign_stage_def Let_def split: proc_result.splits option.splits if_splits)

lemma extract_stage_success_inv:
  "fst (extract_stage ev req d pw st) = Inr (Success s, code) \<Longrightarrow>
     \<exists>b n st'. fst (sign_stage ev req d pw b n st') = Inr (Success s, code)"
  by (auto simp: extract_stage_def Let_def split: sum.splits prod.splits)

lemma staged_success:
  assumes "fst (staged ev req acc d st) = Inr (Success s, code)"
  shows "\<exists>pw st'. fst (extract_stage ev req d pw st') = Inr (Success s, code)"
proof -
  obtain ipa p12 provision password where acc: "acc = (ipa, p12, provision, password)"
    by (cases acc) auto
  let ?sv = "save_uploads (save ev) d
              [(''input.ipa'', contents ipa), (''cert.p12'', contents p12),
               (''profile.mobileprovision'', contents provision)]
              (logmsg DEBUG ''Saving uploaded files...'' st)"
  obtain r st1 where sv: "?sv = (r, st1)" by (cases ?sv) auto
  show ?thesis
  proof (cases r)
    case None
    with assms have "fst (extract_stage ev req d password
                   (logmsg DEBUG ''Files saved successfully'' st1)) = Inr (Success s, code)"
      unfolding acc staged_def by (simp only: sv prod.case option.case)
    then show ?thesis by blast
  next
    case (Some e)
    with assms show ?thesis
      unfolding acc staged_def by (simp only: sv prod.case option.case) simp
  qed
qed

lemma try_finally_success:
  "fst (try_finally ev req acc d st) = (Success s, code) \<Longrightarrow>
     fst (staged ev req acc d st) = Inr (Success s, code)"
  by (cases "staged ev req acc d st")
     (auto simp: try_finally_def Let_def unexpected_def split: sum.splits)

lemma sign_ipa_success:
  assumes "fst (sign_ipa ev req st) = (Success s, code)"
  shows "\<exists>d b n st'. fst (publish ev req d b n st') = Inr (Success s, code)"
proof (cases "validate req")
  case (Inl r)
  with assms validate_rejects [OF Inl] show ?thesis
    by (auto simp: sign_ipa_early)
next
  case (Inr acc)
  show ?thesis
  proof (cases "mkdtemp ev")
    case (Inl e)
    with Inr assms show ?thesis by (simp add: sign_ipa_def unexpected_def)
  next
    case (Inr d)
    with \<open>validate req = Inr acc\<close> assms
    have "fst (try_finally ev req acc d
                 (made_tmpdir d (logmsg DEBUG ''Received sign request'' st))) = (Success s, code)"
      by (simp add: sign_ipa_started)
    from try_finally_success [OF this] obtain pw st1
      where "fst (extract_stage ev req d pw st1) = Inr (Success s, code)"
      using staged_success by blast
    then obtain b n st2 where "fst (sign_stage ev req d pw b n st2) = Inr (Success s, code)"
      using extract_stage_success_inv by blast
    then show ?thesis
      using sign_stage_success by blast
  qed
qed

lemma demo_run: "fst (sign_ipa demo_env demo_request no_files) = (Success demo_success, 200)"
  apply (simp add: sign_ipa_def demo_validate demo_env_def try_finally_def made_tmpdir_def)
  apply (simp add: staged_def extract_stage_def sign_stage_def logmsg_def no_files_def
      write_tmp_def path_join_def startswith_def endswith_def demo_extract always_saved_def
      demo_ipa_def demo_p12_def demo_provision_def)
  apply (simp add: publish_def Let_def logmsg_def cleanup_def demo_success_def demo_request_def
      base_url_of_def startswith_def py_replace.simps str_int_def str_nat.simps digit_char_def
      path_join_def endswith_def decode_ascii_def ascii_byte_def)
  done

text \<open>
  C8: in a success answer the three URLs are built from the base URL, which is the
  request's root URL with \<^verbatim>\<open>http://\<close> replaced by \<^verbatim>\<open>https://\<close> whenever the root URL
  starts with \<^verbatim>\<open>http://\<close> (no condition on the connection; the replacement goes through
  the whole root URL) and never starts with \<^verbatim>\<open>http://\<close>; and the device-installation URL
  is \<^verbatim>\<open>itms-services://?action=download-manifest&url=\<close> followed by the descriptor's
  download URL.
\<close>

theorem success_urls_are_https_based:
  assumes "fst (sign_ipa ev req st) = (Success s, code)"
  shows "ipa_url s = base_url_of (url_root req) @ ''download/'' @ ''signed_''
                       @ py_str (app_info_bundle_id s) @ ''_'' @ str_int (time_signed ev) @ ''.ipa''
       \<and> manifest_url s = base_url_of (url_root req) @ ''download/'' @ ''manifest_''
                       @ py_str (app_info_bundle_id s) @ ''_'' @ str_int (time_manifest ev)
                       @ ''.plist''
       \<and> itms_services_url s = ''itms-services://?action=download-manifest&url=''
                       @ manifest_url s
       \<and> \<not> startswith (base_url_of (url_root req)) ''http://''
       \<and> (startswith (url_root req) ''http://'' \<longrightarrow>
            base_url_of (url_root req)
              = ''https://'' @ py_replace ''http://'' ''https://'' (drop 7 (url_root req)))
       \<and> (\<not> startswith (url_root req) ''http://'' \<longrightarrow> base_url_of (url_root req) = url_root req)"
proof -
  from sign_ipa_success [OF assms] obtain d b n st'
    where "fst (publish ev req d b n st') = Inr (Success s, code)" by blast
  from publish_success [OF this] base_url_of_not_http [of "url_root req"]
    base_url_of_http [of "url_root req"] base_url_of_other [of "url_root req"]
  show ?thesis by blast
qed

theorem success_urls_are_https_based_witness:
  "fst (sign_ipa demo_env demo_request no_files) = (Success demo_success, 200)
   \<and> startswith (url_root demo_request) ''http://''
   \<and> base_url_of (url_root demo_request) = ''https://localhost:5000/''
   \<and> ipa_url demo_success = base_url_of (url_root demo_request) @ ''download/'' @ ''signed_''
         @ py_str (app_info_bundle_id demo_success) @ ''_'' @ str_int (time_signed demo_env)
         @ ''.ipa''
   \<and> manifest_url demo_success = base_url_of (url_root demo_request) @ ''download/''
         @ ''manifest_'' @ py_str (app_info_bundle_id demo_success) @ ''_''
         @ str_int (time_manifest demo_env) @ ''.plist''
   \<and> itms_services_url demo_success
       = ''itms-services://?action=download-manifest&url='' @ manifest_url demo_success"
proof -
  have b: "startswith (url_root demo_request) ''http://''"
    by (simp add: demo_request_def startswith_def)
  have r: "py_replace ''http://'' ''https://'' (drop 7 (url_root demo_request)) = ''localhost:5000/''"
    by (simp add: demo_request_def py_replace.simps startswith_def)
  note urls = success_urls_are_https_based [OF demo_run]
  from urls b have "base_url_of (url_root demo_request)
      = ''https://'' @ py_replace ''http://'' ''https://'' (drop 7 (url_root demo_request))"
    by blast
  with r have base: "base_url_of (url_root demo_request) = ''https://localhost:5000/''"
    by simp
  from urls demo_run b base show ?thesis by blast
qed

section \<open>Properties of the descriptor generator\<close>

lemma chardata_ok_Nil: "chardata_ok []"
  by (simp add: chardata_ok_def)

lemma chardata_ok_Cons:
  "chardata_ok (c # cs) =
     ((case code_points (c # cs) of None \<Rightarrow> False | Some ps \<Rightarrow> list_all xml_legal ps)
      \<and> cdata_end_free (c # cs))"
  by (simp only: chardata_ok_def)

text \<open>Character data up to the next tag is read as it stands.\<close>

lemma xml_scan_text:
  "CHR ''<'' \<notin> set s \<Longrightarrow> CHR ''&'' \<notin> set s \<Longrightarrow> CHR 0x0D \<notin> set s \<Longrightarrow>
     xml_scan False acc (s @ rest) = xml_scan False (rev s @ acc) rest"
  by (induction s arbitrary: acc) auto

text \<open>
  The reader accepts \<^verbatim>\<open>>\<close> and brackets in character data, and refuses \<^verbatim>\<open>]]>\<close>, a
  control character and U+FFFF (the bytes EF BF BF).
\<close>

lemma chardata_examples:
  "chardata_ok ''a > b ]] c''"
  "\<not> chardata_ok ''a]]>b''"
  "\<not> chardata_ok [CHR 0x01]"
  "\<not> chardata_ok (''Demo'' @ [CHR 0xEF, CHR 0xBF, CHR 0xBF])"
  by (simp_all add: chardata_ok_Cons xml_legal_def startswith_def cont_def)

text \<open>
  C7, as stated, fails: the arguments are pasted in unescaped. With the display name
  \<^verbatim>\<open>Tom & Jerry\<close> the text is not a property list at all; with a display name that
  closes its \<^verbatim>\<open>string\<close> element the text is a property list whose title is \<^verbatim>\<open>Demo\<close>
  and whose bundle identifier is the injected one, not the document of the arguments.
\<close>

theorem descriptor_counterexample:
  "read_plist (generate_manifest (PStr ''com.example.demo'') (PStr ''Tom & Jerry'')
                 (PStr ''https://localhost:5000/download/signed_com.example.demo_17.ipa''))
     = None
   \<and> read_plist (generate_manifest (PStr ''com.example.demo'') (PStr injecting_name)
                 (PStr ''https://localhost:5000/download/signed_com.example.demo_17.ipa''))
     = Some (manifest_document ''com.example.other'' ''Demo''
               ''https://localhost:5000/download/signed_com.example.demo_17.ipa'')
   \<and> manifest_document ''com.example.other'' ''Demo''
               ''https://localhost:5000/download/signed_com.example.demo_17.ipa''
     \<noteq> manifest_document ''com.example.demo'' injecting_name
               ''https://localhost:5000/download/signed_com.example.demo_17.ipa''"
  apply (intro conjI)
    apply (simp add: read_plist_def generate_manifest_def manifest_head_def manifest_mid1_def
      manifest_mid2_def manifest_tail_def xml_tag_def chardata_ok_Nil chardata_ok_Cons
      xml_legal_def startswith_def)
   apply (simp add: read_plist_def generate_manifest_def manifest_head_def manifest_mid1_def
      manifest_mid2_def manifest_tail_def xml_tag_def chardata_ok_Nil chardata_ok_Cons
      xml_legal_def startswith_def injecting_name_def)
   apply (simp add: begin_element_def end_element_def manifest_document_def)
  apply (simp add: manifest_document_def)
  done

text \<open>
  C7, amended: the generator is a function of its three arguments, and for all strings
  that are made of characters XML allows (tab, newline, U+0020 to U+D7FF, U+E000 to
  U+FFFD, U+10000 to U+10FFFF) and hold neither \<^verbatim>\<open><\<close> nor \<^verbatim>\<open>&\<close> nor the sequence
  \<^verbatim>\<open>]]>\<close>, the text it returns reads back as the document of the specification: exactly
  one item, whose single asset has kind \<^verbatim>\<open>software-package\<close> and the download URL, and
  whose metadata has the bundle identifier, the bundle version \<^verbatim>\<open>1.0\<close>, the kind
  \<^verbatim>\<open>software\<close> and the display name as title.
\<close>

theorem manifest_reads_back:
  assumes "plain_text bundle_id" and "plain_text app_name" and "plain_text download_url"
  shows "read_plist (generate_manifest (PStr bundle_id) (PStr app_name) (PStr download_url))
           = Some (manifest_document bundle_id app_name download_url)"
  using assms unfolding plain_text_def
  apply (simp add: read_plist_def generate_manifest_def manifest_head_def manifest_mid1_def
      manifest_mid2_def manifest_tail_def xml_scan_text xml_tag_def chardata_ok_Nil
      chardata_ok_Cons xml_legal_def startswith_def)
  apply (simp add: begin_element_def end_element_def manifest_document_def)
  done

theorem manifest_reads_back_witness:
  "plain_text ''com.example.demo'' \<and> plain_text accented_name
   \<and> plain_text ''https://localhost:5000/download/signed_com.example.demo_17.ipa''
   \<and> read_plist (generate_manifest (PStr ''com.example.demo'') (PStr accented_name)
                 (PStr ''https://localhost:5000/download/signed_com.example.demo_17.ipa''))
     = Some (manifest_document ''com.example.demo'' accented_name
               ''https://localhost:5000/download/signed_com.example.demo_17.ipa'')"
proof -
  have b: "plain_text ''com.example.demo''"
    by (simp add: plain_text_def chardata_ok_Cons xml_legal_def startswith_def)
  have n: "plain_text accented_name"
    by (simp add: plain_text_def accented_name_def chardata_ok_Cons xml_legal_def
        startswith_def cont_def)
  have u: "plain_text ''https://localhost:5000/download/signed_com.example.demo_17.ipa''"
    by (simp add: plain_text_def chardata_ok_Cons xml_legal_def startswith_def)
  from manifest_reads_back [OF b n u] b n u show ?thesis
    by blast
qed

end
